theory Spec2Isabelle
  imports Complex_Main "HOL-Library.AList"
begin

section \<open>The render-visualization overlay engine of react-scan\<close>

text \<open>
  The development embeds the WebGL outline engine of \<^verbatim>\<open>src/core/web/outline.ts\<close>, in the
  revision that owns a label texture cache (\<^verbatim>\<open>createTextTexture\<close> with \<^verbatim>\<open>useCount\<close>,
  \<^verbatim>\<open>drawOutlines\<close>, \<^verbatim>\<open>assembleOutlinesDrawArraysInstanced\<close>).

  Conventions of the embedding.
  \<^item> JavaScript numbers that carry pixels, milliseconds and counters are used at integer
    values and are \<^typ>\<open>int\<close> or \<^typ>\<open>nat\<close>; the two quantities the code computes by
    division (\<^verbatim>\<open>alpha\<close> and the intensity ratio \<^verbatim>\<open>t\<close>) are \<^typ>\<open>rat\<close>, so
    rounding of IEEE doubles is not part of the model.
  \<^item> A DOM element is its identity, a \<^typ>\<open>nat\<close>. What the browser answers for it
    (computed style, bounding box, viewport size, clock) is an explicit \<open>layout\<close> argument.
  \<^item> Module-level mutable bindings (\<^verbatim>\<open>ReactScanInternals\<close>, the caches, the GL texture
    table, the promises created by \<^verbatim>\<open>paintOutlineGL\<close>) are fields of one \<open>state\<close>
    record that every operation takes and returns.
  \<^item> A \<^verbatim>\<open>Map\<close> whose iteration order is observable is an association list updated in
    place (\<^const>\<open>AList.update\<close>): an existing key keeps its position, a new key goes last.
  \<^item> Objects are modelled by value. \<^verbatim>\<open>getOutline\<close> allocates a fresh
    \<^verbatim>\<open>PendingOutline\<close> with a fresh \<^verbatim>\<open>renders\<close> array for every render, so the
    outlines of one batch are distinct objects and in-place \<^verbatim>\<open>push\<close> on one of them
    is the list append on the corresponding value.
\<close>

subsection \<open>Data model\<close>

record DOMRect =
  rect_x :: int
  rect_y :: int
  rect_width :: int
  rect_height :: int

text \<open>The read-only edges of a \<^verbatim>\<open>DOMRect\<close>, as the DOM geometry interface defines them.\<close>

definition rect_top :: "DOMRect \<Rightarrow> int" where
  "rect_top rc = min (rect_y rc) (rect_y rc + rect_height rc)"

definition rect_left :: "DOMRect \<Rightarrow> int" where
  "rect_left rc = min (rect_x rc) (rect_x rc + rect_width rc)"

definition rect_bottom :: "DOMRect \<Rightarrow> int" where
  "rect_bottom rc = max (rect_y rc) (rect_y rc + rect_height rc)"

definition rect_right :: "DOMRect \<Rightarrow> int" where
  "rect_right rc = max (rect_x rc) (rect_x rc + rect_width rc)"

text \<open>\<^verbatim>\<open>interface PendingOutline { rect; domNode; renders }\<close>; a render event is opaque (\<open>'r\<close>).\<close>

record 'r PendingOutline =
  rect :: DOMRect
  domNode :: nat
  renders :: "'r list"

subsection \<open>Number to string, and the geometry key\<close>

definition digitChar :: "nat \<Rightarrow> char" where
  "digitChar d = ''0123456789'' ! d"

function showNat :: "nat \<Rightarrow> string" where
  "showNat n = (if n < 10 then [digitChar n] else showNat (n div 10) @ [digitChar (n mod 10)])"
  by pat_completeness auto
termination
  by (relation "measure (\<lambda>n. n)") auto

declare showNat.simps [simp del]

text \<open>What a template literal prints for an integer-valued number.\<close>

definition showNum :: "int \<Rightarrow> string" where
  "showNum i = (if i < 0 then CHR ''-'' # showNat (nat (- i)) else showNat (nat i))"

text \<open>
  \<^verbatim>\<open>getOutlineKey = (outline) => `${rect.top}-${rect.left}-${rect.width}-${rect.height}`\<close>
\<close>

definition getOutlineKey :: "'r PendingOutline \<Rightarrow> string" where
  "getOutlineKey outline =
     showNum (rect_top (rect outline)) @ ''-'' @ showNum (rect_left (rect outline)) @ ''-'' @
     showNum (rect_width (rect outline)) @ ''-'' @ showNum (rect_height (rect outline))"

subsection \<open>Pending-region merger\<close>

text \<open>
  One iteration of the loop of \<^verbatim>\<open>mergeOutlines\<close> on the \<^verbatim>\<open>Map\<close> built so far: a key seen
  for the first time stores the outline, a key seen before gets the renders pushed onto
  the outline already stored.
\<close>

definition mergeStep ::
  "'r PendingOutline \<Rightarrow> (string \<times> 'r PendingOutline) list \<Rightarrow> (string \<times> 'r PendingOutline) list"
where
  "mergeStep outline mergedOutlines =
     (let key = getOutlineKey outline in
      case map_of mergedOutlines key of
        None \<Rightarrow> AList.update key outline mergedOutlines
      | Some existingOutline \<Rightarrow>
          AList.update key
            (existingOutline\<lparr>renders := renders existingOutline @ renders outline\<rparr>)
            mergedOutlines)"

definition mergeOutlines :: "'r PendingOutline list \<Rightarrow> 'r PendingOutline list" where
  "mergeOutlines outlines = map snd (fold mergeStep outlines [])"

text \<open>The renders a batch holds for one key, in batch order.\<close>

definition rendersFor :: "string \<Rightarrow> 'r PendingOutline list \<Rightarrow> 'r list" where
  "rendersFor key outlines =
     concat (map renders (filter (\<lambda>outline. getOutlineKey outline = key) outlines))"

text \<open>Every stored outline sits under its own key, and keys are not repeated.\<close>

definition keyed :: "(string \<times> 'r PendingOutline) list \<Rightarrow> bool" where
  "keyed m \<longleftrightarrow> distinct (map fst m) \<and> (\<forall>(k, v) \<in> set m. getOutlineKey v = k)"

subsection \<open>What the host page and the sibling modules answer\<close>

record CSSStyle =
  display :: string
  visibility :: string
  opacity :: string

text \<open>
  One observation of the page: \<^verbatim>\<open>performance.now()\<close>, \<^verbatim>\<open>window.getComputedStyle\<close>,
  \<^verbatim>\<open>getBoundingClientRect\<close>, the viewport size, and whether \<^verbatim>\<open>drawOutlines\<close> finds its
  program usable (it validates, it is linked, and \<^verbatim>\<open>a_position\<close>, \<^verbatim>\<open>a_color\<close>,
  \<^verbatim>\<open>a_rect\<close> have locations). The clock is read once per observation.
\<close>

record layout =
  now :: int
  computedStyle :: "nat \<Rightarrow> CSSStyle"
  boundingClientRect :: "nat \<Rightarrow> DOMRect"
  innerWidth :: int
  innerHeight :: int
  programReady :: bool

text \<open>
  Imports of the module that are not part of it: \<^verbatim>\<open>isOutlineUnstable\<close> (\<^verbatim>\<open>./utils\<close>),
  \<^verbatim>\<open>getLabelText\<close> (\<^verbatim>\<open>../utils\<close>) and the option
  \<^verbatim>\<open>ReactScanInternals.options.maxRenders\<close>, a number of renders and so a natural number
  here.
\<close>

record 'r externals =
  isOutlineUnstable :: "'r PendingOutline \<Rightarrow> bool"
  getLabelText :: "'r list \<Rightarrow> string option"
  maxRenders :: "nat option"

subsection \<open>Engine state\<close>

record RGB =
  col_r :: int
  col_g :: int
  col_b :: int

text \<open>
  \<^verbatim>\<open>interface ActiveOutline\<close>. The field \<open>resolve\<close> is the closure
  \<^verbatim>\<open>() => { resolve(); options.onPaintFinish?.(outline) }\<close>; it is represented by the
  number of the promise whose resolver it holds. \<open>labelText\<close> is the field \<^verbatim>\<open>text\<close>.
\<close>

record 'r ActiveOutline =
  outline :: "'r PendingOutline"
  alpha :: rat
  frame :: nat
  totalFrames :: nat
  resolve :: nat
  labelText :: "string option"
  color :: RGB

text \<open>
  \<^verbatim>\<open>interface TextureInfo\<close>; a \<^verbatim>\<open>WebGLTexture\<close> is the ordinal of the
  \<^verbatim>\<open>gl.createTexture()\<close> call that made it. The pixel size of the texture, read by
  \<^verbatim>\<open>drawText\<close> only, is left out.
\<close>

record TextureInfo =
  texture :: nat
  useCount :: nat

record RectEntry =
  entry_rect :: DOMRect
  timestamp :: int

text \<open>
  The module-level state. \<open>createdTextures\<close> counts \<^verbatim>\<open>gl.createTexture()\<close> calls and
  \<open>deletedTextures\<close> lists the arguments of \<^verbatim>\<open>gl.deleteTexture\<close>; \<open>frameRequests\<close>
  counts \<^verbatim>\<open>requestAnimationFrame\<close> calls, whose handles are \<open>1, 2, \<dots>\<close>; \<open>promises\<close>
  counts the promises made by \<^verbatim>\<open>paintOutlineGL\<close> and \<open>settled\<close> lists those whose resolver
  ran; \<open>paintStarted\<close> and \<open>paintFinished\<close> list the arguments handed to
  \<^verbatim>\<open>options.onPaintStart\<close> and \<^verbatim>\<open>options.onPaintFinish\<close>; \<open>flushes\<close> holds the bodies
  of \<^verbatim>\<open>flushOutlinesGL\<close> that are suspended at their \<^verbatim>\<open>await Promise.all(\<dots>)\<close>, each as
  the list of (key, paint promise, outline) its callbacks wait for.
\<close>

record 'r state =
  scheduledOutlines :: "'r PendingOutline list"
  activeOutlines :: "'r ActiveOutline list"
  animationFrameId :: "nat option"
  componentUpdateMap :: "string \<rightharpoonup> nat"
  textureCache :: "(string option \<times> TextureInfo) list"
  rectCache :: "nat \<rightharpoonup> RectEntry"
  createdTextures :: nat
  deletedTextures :: "nat list"
  frameRequests :: nat
  promises :: nat
  settled :: "nat list"
  paintStarted :: "'r PendingOutline list"
  paintFinished :: "'r PendingOutline list"
  flushes :: "(string \<times> nat \<times> 'r PendingOutline) list list"

definition initial :: "'r state" where
  "initial =
     \<lparr>scheduledOutlines = [], activeOutlines = [], animationFrameId = None,
      componentUpdateMap = Map.empty, textureCache = [], rectCache = Map.empty,
      createdTextures = 0, deletedTextures = [], frameRequests = 0, promises = 0,
      settled = [], paintStarted = [], paintFinished = [], flushes = []\<rparr>"

subsection \<open>Label texture cache\<close>

text \<open>
  \<^verbatim>\<open>createTextTexture(gl, text)\<close>: a cached text has its \<^verbatim>\<open>useCount\<close> incremented and is
  returned; otherwise a texture is created and stored with \<^verbatim>\<open>useCount: 1\<close>. The caller
  passes \<^verbatim>\<open>text!\<close> of a field typed \<^verbatim>\<open>string | null\<close>, hence the optional key.
\<close>

definition createTextTexture :: "string option \<Rightarrow> 'r state \<Rightarrow> TextureInfo \<times> 'r state" where
  "createTextTexture txt s =
     (case map_of (textureCache s) txt of
        Some textureInfo \<Rightarrow>
          (let textureInfo' = textureInfo\<lparr>useCount := useCount textureInfo + 1\<rparr>
           in (textureInfo', s\<lparr>textureCache := AList.update txt textureInfo' (textureCache s)\<rparr>))
      | None \<Rightarrow>
          (let textureInfo = \<lparr>texture = createdTextures s, useCount = 1\<rparr>
           in (textureInfo,
               s\<lparr>createdTextures := createdTextures s + 1,
                 textureCache := AList.update txt textureInfo (textureCache s)\<rparr>)))"

text \<open>
  The callback of \<^verbatim>\<open>textureCache.forEach\<close> in the idle branch of \<^verbatim>\<open>fadeOutOutlineGL\<close>:
  the entry after the call, and the textures handed to \<^verbatim>\<open>gl.deleteTexture\<close>.
\<close>

definition releaseTexture :: "TextureInfo \<Rightarrow> TextureInfo \<times> nat list" where
  "releaseTexture textureInfo =
     (if useCount textureInfo > 1
      then (textureInfo\<lparr>useCount := useCount textureInfo - 1\<rparr>, [])
      else (textureInfo, [texture textureInfo]))"

subsection \<open>Geometry snapshot cache\<close>

definition getRect :: "layout \<Rightarrow> nat \<Rightarrow> 'r state \<Rightarrow> DOMRect option \<times> 'r state" where
  "getRect env node s =
     (let cached = rectCache s node in
      if (case cached of None \<Rightarrow> False | Some c \<Rightarrow> timestamp c > now env - 128)
      then (map_option entry_rect cached, s)
      else
        let style = computedStyle env node in
        if display style = ''none'' \<or> visibility style = ''hidden'' \<or> opacity style = ''0''
        then (None, s)
        else
          let rc = boundingClientRect env node;
              isVisible =
                (rect_top rc \<ge> - 30 \<and> rect_left rc \<ge> 0 \<and>
                 rect_bottom rc \<le> innerHeight env + 30 \<and>
                 rect_right rc \<le> innerWidth env + 30)
          in
            if \<not> isVisible \<or> rect_width rc = 0 \<or> rect_height rc = 0
            then (None, s)
            else (Some rc,
                  s\<lparr>rectCache := (rectCache s)(node \<mapsto> \<lparr>entry_rect = rc, timestamp = now env\<rparr>)\<rparr>))"

subsection \<open>Throttled recalculation\<close>

text \<open>
  The body that \<^verbatim>\<open>throttle\<close> wraps. Both loops run from the last index down, so the tail of
  the list is visited before its head.
\<close>

fun recalcScheduled ::
  "layout \<Rightarrow> 'r PendingOutline list \<Rightarrow> 'r state \<Rightarrow> 'r PendingOutline list \<times> 'r state"
where
  "recalcScheduled env [] s = ([], s)"
| "recalcScheduled env (outline0 # rest) s =
     (let (rest', s1) = recalcScheduled env rest s;
          (rc, s2) = getRect env (domNode outline0) s1
      in case rc of
           None \<Rightarrow> (rest', s2)
         | Some r \<Rightarrow> (outline0\<lparr>rect := r\<rparr> # rest', s2))"

fun recalcActive ::
  "layout \<Rightarrow> 'r ActiveOutline list \<Rightarrow> 'r state \<Rightarrow> 'r ActiveOutline list \<times> 'r state"
where
  "recalcActive env [] s = ([], s)"
| "recalcActive env (activeOutline # rest) s =
     (let (rest', s1) = recalcActive env rest s;
          (rc, s2) = getRect env (domNode (outline activeOutline)) s1
      in case rc of
           None \<Rightarrow> (rest', s2)
         | Some r \<Rightarrow> (activeOutline\<lparr>outline := (outline activeOutline)\<lparr>rect := r\<rparr>\<rparr> # rest', s2))"

definition recalcOutlines :: "layout \<Rightarrow> 'r state \<Rightarrow> 'r state" where
  "recalcOutlines env s =
     (let (scheduled', s1) = recalcScheduled env (scheduledOutlines s) s;
          s2 = s1\<lparr>scheduledOutlines := scheduled'\<rparr>;
          (active', s3) = recalcActive env (activeOutlines s2) s2
      in s3\<lparr>activeOutlines := active'\<rparr>)"

subsection \<open>Color derivation\<close>

definition START_COLOR :: RGB where
  "START_COLOR = \<lparr>col_r = 115, col_g = 97, col_b = 230\<rparr>"

definition END_COLOR :: RGB where
  "END_COLOR = \<lparr>col_r = 185, col_g = 49, col_b = 115\<rparr>"

text \<open>\<^verbatim>\<open>Math.round\<close>: the nearest integer, a half going up.\<close>

definition jsRound :: "rat \<Rightarrow> int" where
  "jsRound q = \<lfloor>q + 1 / 2\<rfloor>"

text \<open>
  \<^verbatim>\<open>Math.min(updateCount / maxRenders, 1)\<close>. The count is positive where the code
  divides, so a zero \<^verbatim>\<open>maxRenders\<close> gives \<^verbatim>\<open>Infinity\<close> and the minimum is 1.
\<close>

definition intensity :: "nat \<Rightarrow> nat \<Rightarrow> rat" where
  "intensity updateCount maxRenders0 =
     (if maxRenders0 = 0 then 1 else min (of_nat updateCount / of_nat maxRenders0) 1)"

text \<open>The object literal \<^verbatim>\<open>color\<close> of \<^verbatim>\<open>paintOutlineGL\<close>, as a function of \<^verbatim>\<open>t\<close>.\<close>

definition outlineColor :: "rat \<Rightarrow> RGB" where
  "outlineColor t =
     \<lparr>col_r = jsRound (of_int (col_r START_COLOR) + t * of_int (col_r END_COLOR - col_r START_COLOR)),
      col_g = jsRound (of_int (col_g START_COLOR) + t * of_int (col_g END_COLOR - col_g START_COLOR)),
      col_b = jsRound (of_int (col_b START_COLOR) + t * of_int (col_b END_COLOR - col_b START_COLOR))\<rparr>"

subsection \<open>Painting a region into the registry\<close>

text \<open>In-place update of the element that \<^verbatim>\<open>Array.prototype.find\<close> returns.\<close>

fun updateFirst :: "('a \<Rightarrow> bool) \<Rightarrow> ('a \<Rightarrow> 'a) \<Rightarrow> 'a list \<Rightarrow> 'a list" where
  "updateFirst P f [] = []"
| "updateFirst P f (a # rest) = (if P a then f a # rest else a # updateFirst P f rest)"

text \<open>
  \<^verbatim>\<open>paintOutlineGL(ctx, outline)\<close>: the executor of the returned promise runs at once. The
  result is the number of that promise and the state after the executor.
\<close>

definition paintOutlineGL :: "'r externals \<Rightarrow> 'r PendingOutline \<Rightarrow> 'r state \<Rightarrow> nat \<times> 'r state" where
  "paintOutlineGL ext outline0 s =
     (let promise = promises s;
          s0 = s\<lparr>promises := promise + 1\<rparr>;
          unstable = isOutlineUnstable ext outline0;
          totalFrames0 = (if unstable then 60 else 30);
          alpha0 = 1;
          s1 = s0\<lparr>paintStarted := paintStarted s0 @ [outline0]\<rparr>;
          key = getOutlineKey outline0;
          sameKey = (\<lambda>activeOutline. getOutlineKey (outline activeOutline) = key);
          existingActiveOutline = find sameKey (activeOutlines s1);
          currentCount = (case componentUpdateMap s1 key of None \<Rightarrow> 0 | Some c \<Rightarrow> c);
          s2 = s1\<lparr>componentUpdateMap := (componentUpdateMap s1)(key \<mapsto> currentCount + 1)\<rparr>;
          maxRenders0 = (case maxRenders ext of None \<Rightarrow> 100 | Some m \<Rightarrow> m);
          updateCount = (case componentUpdateMap s2 key of None \<Rightarrow> 0 | Some c \<Rightarrow> c);
          t = intensity updateCount maxRenders0;
          color0 = outlineColor t;
          s3 = (case existingActiveOutline of
                  Some _ \<Rightarrow>
                    s2\<lparr>activeOutlines :=
                         updateFirst sameKey
                           (\<lambda>existing.
                              existing\<lparr>outline :=
                                         (outline existing)
                                           \<lparr>renders := renders (outline existing) @ renders outline0,
                                            rect := rect outline0\<rparr>,
                                       frame := 0,
                                       totalFrames := totalFrames0,
                                       alpha := alpha0,
                                       color := color0\<rparr>)
                           (activeOutlines s2)\<rparr>
                | None \<Rightarrow>
                    s2\<lparr>activeOutlines :=
                         activeOutlines s2 @
                           [\<lparr>outline = outline0, alpha = alpha0, frame = 0,
                             totalFrames = totalFrames0, resolve = promise,
                             labelText = getLabelText ext (renders outline0),
                             color = color0\<rparr>]\<rparr>);
          s4 = (if animationFrameId s3 = None
                then s3\<lparr>frameRequests := frameRequests s3 + 1,
                        animationFrameId := Some (frameRequests s3 + 1)\<rparr>
                else s3)
      in (promise, s4))"

text \<open>
  What a call of the stored closure would do. No operation of the module calls it; the
  definition records the body of the closure.
\<close>

definition callResolve :: "'r ActiveOutline \<Rightarrow> 'r state \<Rightarrow> 'r state" where
  "callResolve activeOutline s =
     s\<lparr>settled := settled s @ [resolve activeOutline],
       paintFinished := paintFinished s @ [outline activeOutline]\<rparr>"

subsection \<open>The per-frame tick\<close>

text \<open>The callback of \<^verbatim>\<open>activeOutlines.forEach\<close> in \<^verbatim>\<open>assembleOutlinesDrawArraysInstanced\<close>.
  The instance arrays it fills go to the GPU and are not kept.\<close>

definition assembleOne ::
  "'r externals \<Rightarrow> layout \<Rightarrow> 'r ActiveOutline \<Rightarrow> 'r state \<Rightarrow> 'r ActiveOutline \<times> 'r state"
where
  "assembleOne ext env activeOutline s =
     (let unstable = isOutlineUnstable ext (outline activeOutline);
          s1 = (if map_of (textureCache s) (labelText activeOutline) = None \<and> unstable
                then snd (createTextTexture (labelText activeOutline) s) else s);
          (newRect, s2) = getRect env (domNode (outline activeOutline)) s1;
          outline' = (case newRect of
                        Some rc \<Rightarrow> (outline activeOutline)\<lparr>rect := rc\<rparr>
                      | None \<Rightarrow> outline activeOutline);
          alphaScalar = (if unstable then 1 else 1 / 5)
      in (activeOutline
            \<lparr>outline := outline',
             alpha := alphaScalar *
                      (1 - of_nat (frame activeOutline) / of_nat (totalFrames activeOutline)),
             frame := frame activeOutline + 1\<rparr>,
          s2))"

fun assembleAll ::
  "'r externals \<Rightarrow> layout \<Rightarrow> 'r ActiveOutline list \<Rightarrow> 'r state \<Rightarrow> 'r ActiveOutline list \<times> 'r state"
where
  "assembleAll ext env [] s = ([], s)"
| "assembleAll ext env (activeOutline # rest) s =
     (let (activeOutline', s1) = assembleOne ext env activeOutline s;
          (rest', s2) = assembleAll ext env rest s1
      in (activeOutline' # rest', s2))"

definition assembleOutlinesDrawArraysInstanced :: "'r externals \<Rightarrow> layout \<Rightarrow> 'r state \<Rightarrow> 'r state" where
  "assembleOutlinesDrawArraysInstanced ext env s =
     (let (active', s1) = assembleAll ext env (activeOutlines s) s
      in s1\<lparr>activeOutlines := active'\<rparr>)"

text \<open>\<^verbatim>\<open>drawOutlines\<close> returns \<^verbatim>\<open>false\<close> before assembling when its program is not usable.\<close>

definition drawOutlines :: "'r externals \<Rightarrow> layout \<Rightarrow> 'r state \<Rightarrow> 'r state" where
  "drawOutlines ext env s =
     (if \<not> programReady env then s else assembleOutlinesDrawArraysInstanced ext env s)"

text \<open>
  \<^verbatim>\<open>fadeOutOutlineGL(ctx)\<close>. \<^verbatim>\<open>drawText\<close> and \<^verbatim>\<open>drawComposite\<close> only read the state and
  are not shown. The clean-up loop splices out, from the last index down, every outline
  with \<^verbatim>\<open>frame > totalFrames\<close>.
\<close>

definition fadeOutOutlineGL :: "'r externals \<Rightarrow> layout \<Rightarrow> 'r state \<Rightarrow> 'r state" where
  "fadeOutOutlineGL ext env s =
     (if activeOutlines s = [] then
        let s1 = s\<lparr>animationFrameId := None\<rparr>;
            s2 = s1\<lparr>componentUpdateMap := Map.empty\<rparr>;
            s3 = s2\<lparr>rectCache := Map.empty\<rparr>;
            released = map (\<lambda>(txt, textureInfo). (txt, releaseTexture textureInfo)) (textureCache s3);
            s4 = s3\<lparr>textureCache := map (\<lambda>(txt, r). (txt, fst r)) released,
                    deletedTextures := deletedTextures s3 @ concat (map (\<lambda>(txt, r). snd r) released)\<rparr>
        in s4\<lparr>textureCache := []\<rparr>
      else
        let s1 = drawOutlines ext env s;
            s2 = s1\<lparr>activeOutlines :=
                      filter (\<lambda>activeOutline. \<not> frame activeOutline > totalFrames activeOutline)
                        (activeOutlines s1)\<rparr>
        in s2\<lparr>frameRequests := frameRequests s2 + 1,
              animationFrameId := Some (frameRequests s2 + 1)\<rparr>)"

subsection \<open>Flushing the pending queue\<close>

text \<open>
  The callbacks of \<^verbatim>\<open>mergedOutlines.map(async (outline) => \<dots>)\<close>. Each runs up to its
  \<^verbatim>\<open>await\<close>: an outline whose key is in \<^verbatim>\<open>previousOutlines\<close> finishes at once, any
  other is painted and its callback waits for the paint promise.
\<close>

fun paintAll ::
  "'r externals \<Rightarrow> (string \<times> 'r PendingOutline) list \<Rightarrow> 'r PendingOutline list \<Rightarrow> 'r state \<Rightarrow>
   (string \<times> nat \<times> 'r PendingOutline) list \<times> 'r state"
where
  "paintAll ext previousOutlines [] s = ([], s)"
| "paintAll ext previousOutlines (outline0 # rest) s =
     (let key = getOutlineKey outline0 in
      if map_of previousOutlines key \<noteq> None then paintAll ext previousOutlines rest s
      else
        let (promise, s1) = paintOutlineGL ext outline0 s;
            (waiting, s2) = paintAll ext previousOutlines rest s1
        in ((key, promise, outline0) # waiting, s2))"

text \<open>
  \<^verbatim>\<open>flushOutlinesGL(ctx, previousOutlines)\<close> up to the point where its \<^verbatim>\<open>async\<close> body
  suspends. The body starts running inside the call, so \<^verbatim>\<open>secondOutlines\<close> is read from
  the queue that was emptied one statement earlier. The toolbar text is not modelled.
\<close>

definition flushOutlinesGL ::
  "'r externals \<Rightarrow> (string \<times> 'r PendingOutline) list \<Rightarrow> 'r state \<Rightarrow> 'r state"
where
  "flushOutlinesGL ext previousOutlines s =
     (if scheduledOutlines s = [] then s
      else
        let firstOutlines = scheduledOutlines s;
            s1 = s\<lparr>scheduledOutlines := []\<rparr>;
            secondOutlines = scheduledOutlines s1;
            s2 = s1\<lparr>scheduledOutlines := []\<rparr>;
            mergedOutlines = mergeOutlines (firstOutlines @ secondOutlines);
            (waiting, s3) = paintAll ext previousOutlines mergedOutlines s2
        in s3\<lparr>flushes := flushes s3 @ [waiting]\<rparr>)"

text \<open>
  The rest of the \<^verbatim>\<open>async\<close> body, after \<^verbatim>\<open>await Promise.all(\<dots>)\<close>: it can run once
  every paint promise the flush waits for is settled. Each callback then stores its
  outline in \<^verbatim>\<open>newPreviousOutlines\<close>, and a non-empty queue starts the next flush.
\<close>

definition resumeFlush :: "'r externals \<Rightarrow> nat \<Rightarrow> 'r state \<Rightarrow> 'r state" where
  "resumeFlush ext i s =
     (if i < length (flushes s) \<and>
         list_all (\<lambda>(key, promise, outline0). promise \<in> set (settled s)) (flushes s ! i)
      then
        let newPreviousOutlines =
              fold (\<lambda>(key, promise, outline0). AList.update key outline0) (flushes s ! i) [];
            s1 = s\<lparr>flushes := take i (flushes s) @ drop (Suc i) (flushes s)\<rparr>
        in if scheduledOutlines s1 \<noteq> [] then flushOutlinesGL ext newPreviousOutlines s1 else s1
      else s)"

subsection \<open>The event loop\<close>

text \<open>
  Modelled from the spec: the producer that fills \<^verbatim>\<open>ReactScanInternals.scheduledOutlines\<close>
  and calls \<^verbatim>\<open>flushOutlinesGL(ctx)\<close> is not in the module (section 4.7: the scheduler
  "owns a pending-event queue" and flushes "on receiving a batch of resolved Regions";
  section 6: resize and scroll notifications trigger the throttled recalculation).
  An event is one task of the single thread: the producer queues an outline, the producer
  calls the flush with its default arguments, the frame callback requested through
  \<^verbatim>\<open>requestAnimationFrame\<close> fires, the throttled recalculation runs, or a suspended flush
  continues.
\<close>

datatype 'r event =
    Produce "'r PendingOutline"
  | Flush
  | AnimationFrame layout
  | Recalc layout
  | Resume nat

fun step :: "'r externals \<Rightarrow> 'r event \<Rightarrow> 'r state \<Rightarrow> 'r state" where
  "step ext (Produce outline0) s = s\<lparr>scheduledOutlines := scheduledOutlines s @ [outline0]\<rparr>"
| "step ext Flush s = flushOutlinesGL ext [] s"
| "step ext (AnimationFrame env) s =
     (if animationFrameId s = None then s else fadeOutOutlineGL ext env s)"
| "step ext (Recalc env) s = recalcOutlines env s"
| "step ext (Resume i) s = resumeFlush ext i s"

definition run :: "'r externals \<Rightarrow> 'r event list \<Rightarrow> 'r state \<Rightarrow> 'r state" where
  "run ext events s = fold (step ext) events s"

subsection \<open>Vocabulary of the specification\<close>

text \<open>
  The conditions the specification names for \<^verbatim>\<open>getRect\<close>, in its words: an element with
  suppressed rendering (display none, visibility hidden, opacity 0), of zero width or
  height, or lying entirely outside the extended viewport (30 pixels added above, below
  and to the right of the window); and a cache entry still inside its 128 ms window.
\<close>

definition suppressed :: "layout \<Rightarrow> nat \<Rightarrow> bool" where
  "suppressed env node \<longleftrightarrow>
     display (computedStyle env node) = ''none'' \<or>
     visibility (computedStyle env node) = ''hidden'' \<or>
     opacity (computedStyle env node) = ''0''"

definition zeroSize :: "layout \<Rightarrow> nat \<Rightarrow> bool" where
  "zeroSize env node \<longleftrightarrow>
     rect_width (boundingClientRect env node) = 0 \<or> rect_height (boundingClientRect env node) = 0"

definition outsideMargin :: "layout \<Rightarrow> nat \<Rightarrow> bool" where
  "outsideMargin env node \<longleftrightarrow>
     rect_bottom (boundingClientRect env node) < - 30 \<or>
     rect_right (boundingClientRect env node) < 0 \<or>
     rect_top (boundingClientRect env node) > innerHeight env + 30 \<or>
     rect_left (boundingClientRect env node) > innerWidth env + 30"

definition freshEntry :: "layout \<Rightarrow> nat \<Rightarrow> 'r state \<Rightarrow> bool" where
  "freshEntry env node s \<longleftrightarrow>
     (case rectCache s node of None \<Rightarrow> False | Some c \<Rightarrow> now env - timestamp c < 128)"

subsection \<open>Notions used in the statements\<close>

text \<open>A run of consecutive ticks, one page observation per tick.\<close>

definition ticks :: "'r externals \<Rightarrow> layout list \<Rightarrow> 'r state \<Rightarrow> 'r state" where
  "ticks ext envs s = fold (fadeOutOutlineGL ext) envs s"

text \<open>What the lifecycle of a registry entry depends on: its resolver, frame and fade window.\<close>

definition lifeOf :: "'r ActiveOutline \<Rightarrow> nat \<times> nat \<times> nat" where
  "lifeOf activeOutline = (resolve activeOutline, frame activeOutline, totalFrames activeOutline)"

definition activeKeys :: "'r state \<Rightarrow> string list" where
  "activeKeys s = map (\<lambda>activeOutline. getOutlineKey (outline activeOutline)) (activeOutlines s)"

text \<open>The registry entry a paint creates, and the one it makes of an existing entry.\<close>

definition paintedColor :: "'r externals \<Rightarrow> 'r PendingOutline \<Rightarrow> 'r state \<Rightarrow> RGB" where
  "paintedColor ext outline0 s =
     outlineColor
       (intensity
          (Suc (case componentUpdateMap s (getOutlineKey outline0) of None \<Rightarrow> 0 | Some c \<Rightarrow> c))
          (case maxRenders ext of None \<Rightarrow> 100 | Some m \<Rightarrow> m))"

definition created :: "'r externals \<Rightarrow> 'r PendingOutline \<Rightarrow> 'r state \<Rightarrow> 'r ActiveOutline" where
  "created ext outline0 s =
     \<lparr>outline = outline0, alpha = 1, frame = 0,
      totalFrames = (if isOutlineUnstable ext outline0 then 60 else 30),
      resolve = promises s, labelText = getLabelText ext (renders outline0),
      color = paintedColor ext outline0 s\<rparr>"

definition refreshed ::
  "'r externals \<Rightarrow> 'r PendingOutline \<Rightarrow> 'r state \<Rightarrow> 'r ActiveOutline \<Rightarrow> 'r ActiveOutline"
where
  "refreshed ext outline0 s existing =
     existing
       \<lparr>outline := (outline existing)
          \<lparr>renders := renders (outline existing) @ renders outline0, rect := rect outline0\<rparr>,
        frame := 0,
        totalFrames := (if isOutlineUnstable ext outline0 then 60 else 30),
        alpha := 1,
        color := paintedColor ext outline0 s\<rparr>"



text \<open>Events in which the producer does nothing: a frame fires, or a suspended flush
  is given the chance to continue.\<close>

fun waitsOnly :: "'r event \<Rightarrow> bool" where
  "waitsOnly (AnimationFrame env) = True"
| "waitsOnly (Resume i) = True"
| "waitsOnly e = False"

text \<open>No paint promise is settled and every suspended flush waits for at least one.\<close>

definition stuck :: "'r state \<Rightarrow> bool" where
  "stuck s \<longleftrightarrow> settled s = [] \<and> [] \<notin> set (flushes s)"

subsection \<open>Sample inputs\<close>

definition rectA :: DOMRect where
  "rectA = \<lparr>rect_x = 10, rect_y = 10, rect_width = 100, rect_height = 50\<rparr>"

definition rectB :: DOMRect where
  "rectB = \<lparr>rect_x = 200, rect_y = 10, rect_width = 100, rect_height = 50\<rparr>"

definition outlineA :: "nat PendingOutline" where
  "outlineA = \<lparr>rect = rectA, domNode = 5, renders = [7]\<rparr>"

definition outlineA' :: "nat PendingOutline" where
  "outlineA' = \<lparr>rect = rectA, domNode = 3, renders = [8, 9]\<rparr>"

definition outlineB :: "nat PendingOutline" where
  "outlineB = \<lparr>rect = rectB, domNode = 2, renders = [4]\<rparr>"

text \<open>A host that classifies every outline as stable, and one that classifies every
  outline as unstable and labels it.\<close>

definition calmHost :: "nat externals" where
  "calmHost = \<lparr>isOutlineUnstable = (\<lambda>_. False), getLabelText = (\<lambda>_. None), maxRenders = None\<rparr>"

definition busyHost :: "nat externals" where
  "busyHost =
     \<lparr>isOutlineUnstable = (\<lambda>_. True), getLabelText = (\<lambda>_. Some ''App''), maxRenders = None\<rparr>"

definition shown :: CSSStyle where
  "shown = \<lparr>display = ''block'', visibility = ''visible'', opacity = ''1''\<rparr>"

definition hiddenStyle :: CSSStyle where
  "hiddenStyle = \<lparr>display = ''none'', visibility = ''visible'', opacity = ''1''\<rparr>"

text \<open>An 800 by 600 window at clock \<open>t\<close>: element 2 sits at \<open>rectB\<close>, every other at \<open>rectA\<close>.\<close>

definition page :: "int \<Rightarrow> layout" where
  "page t =
     \<lparr>now = t, computedStyle = (\<lambda>_. shown),
      boundingClientRect = (\<lambda>node. if node = 2 then rectB else rectA),
      innerWidth = 800, innerHeight = 600, programReady = True\<rparr>"

text \<open>The same window with every element hidden, with every element moved onto
  \<open>rectA\<close>, and with an outline program that fails validation.\<close>

definition pageHidden :: "int \<Rightarrow> layout" where
  "pageHidden t = (page t)\<lparr>computedStyle := (\<lambda>_. hiddenStyle)\<rparr>"

definition pageStacked :: "int \<Rightarrow> layout" where
  "pageStacked t = (page t)\<lparr>boundingClientRect := (\<lambda>_. rectA)\<rparr>"

definition pageBroken :: "int \<Rightarrow> layout" where
  "pageBroken t = (page t)\<lparr>programReady := False\<rparr>"

text \<open>The engine after one request for a label.\<close>

definition onceAcquired :: "nat state" where
  "onceAcquired = snd (createTextTexture (Some ''App'') initial)"

text \<open>One outline painted into the empty engine by either host.\<close>

definition busyPainted :: "nat state" where
  "busyPainted = snd (paintOutlineGL busyHost outlineA initial)"

definition calmPainted :: "nat state" where
  "calmPainted = snd (paintOutlineGL calmHost outlineA initial)"

text \<open>A labelled region is painted and drawn once; then its element is hidden and the
  recalculation drops it.\<close>

definition labelledThenHidden :: "nat event list" where
  "labelledThenHidden =
     [Produce outlineA, Flush, AnimationFrame (page 0), Recalc (pageHidden 500)]"

section \<open>Properties\<close>

subsection \<open>Merging\<close>

lemma getOutlineKey_renders [simp]:
  "getOutlineKey (po\<lparr>renders := rs\<rparr>) = getOutlineKey po"
  by (simp add: getOutlineKey_def)

lemma set_update_subset:
  "set (AList.update k v m) \<subseteq> insert (k, v) (set m)"
  by (induction m) auto

lemma keyed_mergeStep:
  assumes "keyed m"
  shows "keyed (mergeStep po m)"
proof -
  have d: "distinct (map fst (AList.update k v m))" for k and v :: "'a PendingOutline"
    using assms by (simp add: keyed_def distinct_update)
  have "getOutlineKey v' = k'"
    if "(k', v') \<in> set (AList.update k v m)" and "getOutlineKey v = k"
    for k k' and v v' :: "'a PendingOutline"
    using that assms set_update_subset [of k v m] by (auto simp: keyed_def)
  note inside = this
  show ?thesis
  proof (cases "map_of m (getOutlineKey po)")
    case None
    then show ?thesis
      using d inside [of _ _ "getOutlineKey po" po]
      by (auto simp: mergeStep_def keyed_def)
  next
    case (Some e)
    then have "(getOutlineKey po, e) \<in> set m"
      by (rule map_of_SomeD)
    with assms have "getOutlineKey e = getOutlineKey po"
      by (auto simp: keyed_def)
    then show ?thesis
      using Some d
        inside [of _ _ "getOutlineKey po" "e\<lparr>renders := renders e @ renders po\<rparr>"]
      by (auto simp: mergeStep_def keyed_def)
  qed
qed

lemma keyed_fold: "keyed m \<Longrightarrow> keyed (fold mergeStep outlines m)"
  by (induction outlines arbitrary: m) (simp_all add: keyed_mergeStep)

lemma keys_mergeStep:
  "fst ` set (mergeStep po m) = insert (getOutlineKey po) (fst ` set m)"
  by (auto simp: mergeStep_def Let_def dom_update split: option.splits)

lemma keys_fold:
  "fst ` set (fold mergeStep outlines m) = fst ` set m \<union> getOutlineKey ` set outlines"
  by (induction outlines arbitrary: m) (auto simp: keys_mergeStep)

lemma map_of_fold:
  "map_of (fold mergeStep xs m) k =
     (case map_of m k of
        Some v \<Rightarrow> Some (v\<lparr>renders := renders v @ rendersFor k xs\<rparr>)
      | None \<Rightarrow>
          (case find (\<lambda>p. getOutlineKey p = k) xs of
             None \<Rightarrow> None
           | Some a \<Rightarrow> Some (a\<lparr>renders := rendersFor k xs\<rparr>)))"
proof (induction xs arbitrary: m)
  case Nil
  then show ?case by (simp add: rendersFor_def split: option.splits)
next
  case (Cons x xs)
  show ?case
  proof (cases "getOutlineKey x = k")
    case True
    have "map_of (mergeStep x m) k =
        Some (case map_of m k of None \<Rightarrow> x | Some v \<Rightarrow> v\<lparr>renders := renders v @ renders x\<rparr>)"
      using True by (simp add: mergeStep_def update_conv' split: option.splits)
    moreover have "rendersFor k (x # xs) = renders x @ rendersFor k xs"
      using True by (simp add: rendersFor_def)
    ultimately show ?thesis
      using True by (simp add: Cons.IH split: option.splits)
  next
    case False
    then have "map_of (mergeStep x m) k = map_of m k"
      by (auto simp: mergeStep_def Let_def update_conv' split: option.splits)
    moreover have "rendersFor k (x # xs) = rendersFor k xs"
      using False by (simp add: rendersFor_def)
    moreover have "find (\<lambda>p. getOutlineKey p = k) (x # xs) = find (\<lambda>p. getOutlineKey p = k) xs"
      using False by simp
    ultimately show ?thesis
      by (simp only: fold_simps Cons.IH)
  qed
qed

lemma merged_keys: "keyed m \<Longrightarrow> map getOutlineKey (map snd m) = map fst m"
  by (induction m) (auto simp: keyed_def)

lemma keyed_Nil: "keyed []"
  by (simp add: keyed_def)

lemma distinct_mergeOutlines: "distinct (map getOutlineKey (mergeOutlines xs))"
proof -
  have k: "keyed (fold mergeStep xs [])" by (rule keyed_fold [OF keyed_Nil])
  show ?thesis
    unfolding mergeOutlines_def merged_keys [OF k] using k by (simp add: keyed_def)
qed

lemma keys_mergeOutlines:
  "set (map getOutlineKey (mergeOutlines xs)) = set (map getOutlineKey xs)"
proof -
  have k: "keyed (fold mergeStep xs [])" by (rule keyed_fold [OF keyed_Nil])
  show ?thesis
    unfolding mergeOutlines_def merged_keys [OF k] using keys_fold [of xs "[]"] by simp
qed

lemma merged_entry:
  assumes "v \<in> set (mergeOutlines xs)"
  shows "\<exists>a. find (\<lambda>p. getOutlineKey p = getOutlineKey v) xs = Some a \<and>
             v = a\<lparr>renders := rendersFor (getOutlineKey v) xs\<rparr>"
proof -
  let ?m = "fold mergeStep xs []"
  have k: "keyed ?m" by (rule keyed_fold [OF keyed_Nil])
  from assms obtain k0 where in_m: "(k0, v) \<in> set ?m"
    by (auto simp: mergeOutlines_def)
  with k have "getOutlineKey v = k0" by (auto simp: keyed_def)
  moreover from k in_m have "map_of ?m k0 = Some v"
    by (simp add: keyed_def)
  ultimately have "map_of ?m (getOutlineKey v) = Some v" by simp
  then show ?thesis
    by (simp add: map_of_fold split: option.splits)
qed

lemma sum_lengths: "length (rendersFor k xs) =
   sum_list (map (\<lambda>p. length (renders p)) (filter (\<lambda>p. getOutlineKey p = k) xs))"
  by (simp add: rendersFor_def length_concat comp_def)

lemma merge_two:
  "getOutlineKey a = getOutlineKey b \<Longrightarrow> mergeOutlines [a, b] = [a\<lparr>renders := renders a @ renders b\<rparr>]"
  by (simp add: mergeOutlines_def mergeStep_def)

text \<open>
  Claim C4. \<^verbatim>\<open>mergeOutlines\<close> groups a batch by geometry key and yields exactly one
  outline per distinct key: the keys of the result are pairwise different and are the keys
  of the batch, and the outline of a key carries the renders of every input outline of
  that key, so its length is the sum of their lengths. Two outlines that share a key merge
  into a single outline whose render list has the length of both together, in either
  order.
\<close>

theorem mergeOutlines_one_region_per_key:
  "distinct (map getOutlineKey (mergeOutlines outlines)) \<and>
   set (map getOutlineKey (mergeOutlines outlines)) = set (map getOutlineKey outlines) \<and>
   (\<forall>merged \<in> set (mergeOutlines outlines).
      renders merged = rendersFor (getOutlineKey merged) outlines \<and>
      length (renders merged) =
        sum_list (map (\<lambda>p. length (renders p))
          (filter (\<lambda>p. getOutlineKey p = getOutlineKey merged) outlines))) \<and>
   (getOutlineKey a = getOutlineKey b \<longrightarrow>
      (\<exists>merged. mergeOutlines [a, b] = [merged] \<and>
         length (renders merged) = length (renders a) + length (renders b)) \<and>
      (\<exists>merged. mergeOutlines [b, a] = [merged] \<and>
         length (renders merged) = length (renders a) + length (renders b)))"
proof (intro conjI ballI impI)
  show "distinct (map getOutlineKey (mergeOutlines outlines))"
    by (rule distinct_mergeOutlines)
  show "set (map getOutlineKey (mergeOutlines outlines)) = set (map getOutlineKey outlines)"
    by (rule keys_mergeOutlines)
next
  fix merged assume "merged \<in> set (mergeOutlines outlines)"
  from merged_entry [OF this] obtain a0 where
    "merged = a0\<lparr>renders := rendersFor (getOutlineKey merged) outlines\<rparr>" by blast
  then have "renders merged = rendersFor (getOutlineKey merged) outlines"
    by (metis PendingOutline.select_convs(3) PendingOutline.surjective PendingOutline.update_convs(3))
  then show "renders merged = rendersFor (getOutlineKey merged) outlines"
    and "length (renders merged) =
        sum_list (map (\<lambda>p. length (renders p))
          (filter (\<lambda>p. getOutlineKey p = getOutlineKey merged) outlines))"
    by (simp_all add: sum_lengths)
next
  assume "getOutlineKey a = getOutlineKey b"
  then show "\<exists>merged. mergeOutlines [a, b] = [merged] \<and>
         length (renders merged) = length (renders a) + length (renders b)"
    and "\<exists>merged. mergeOutlines [b, a] = [merged] \<and>
         length (renders merged) = length (renders a) + length (renders b)"
    by (simp_all add: merge_two)
qed

lemma sample_keys:
  "getOutlineKey outlineA = ''10-10-100-50''"
  "getOutlineKey outlineA' = ''10-10-100-50''"
  "getOutlineKey outlineB = ''10-200-100-50''"
  by code_simp+

theorem mergeOutlines_one_region_per_key_witness:
  "getOutlineKey outlineA = getOutlineKey outlineA' \<and>
   outlineA\<lparr>renders := [7, 8, 9]\<rparr> \<in> set (mergeOutlines [outlineA, outlineB, outlineA']) \<and>
   renders (outlineA\<lparr>renders := [7, 8, 9]\<rparr>) =
     rendersFor (getOutlineKey (outlineA\<lparr>renders := [7, 8, 9]\<rparr>)) [outlineA, outlineB, outlineA'] \<and>
   distinct (map getOutlineKey (mergeOutlines [outlineA, outlineB, outlineA'])) \<and>
   (\<exists>merged. mergeOutlines [outlineA, outlineA'] = [merged] \<and> length (renders merged) = 3) \<and>
   (\<exists>merged. mergeOutlines [outlineA', outlineA] = [merged] \<and> length (renders merged) = 3)"
proof -
  have k: "getOutlineKey outlineA = getOutlineKey outlineA'"
    by (simp add: getOutlineKey_def outlineA_def outlineA'_def)
  have m: "outlineA\<lparr>renders := [7, 8, 9]\<rparr> \<in> set (mergeOutlines [outlineA, outlineB, outlineA'])"
    by (simp add: mergeOutlines_def mergeStep_def sample_keys) (simp add: outlineA_def outlineA'_def)
  have l: "length (renders outlineA) + length (renders outlineA') = 3"
    by (simp add: outlineA_def outlineA'_def)
  note all = mergeOutlines_one_region_per_key [of "[outlineA, outlineB, outlineA']" outlineA outlineA']
  from all have d: "distinct (map getOutlineKey (mergeOutlines [outlineA, outlineB, outlineA']))"
    by blast
  from all m have r: "renders (outlineA\<lparr>renders := [7, 8, 9]\<rparr>) =
     rendersFor (getOutlineKey (outlineA\<lparr>renders := [7, 8, 9]\<rparr>)) [outlineA, outlineB, outlineA']"
    by blast
  from all k have
    "(\<exists>merged. mergeOutlines [outlineA, outlineA'] = [merged] \<and>
        length (renders merged) = length (renders outlineA) + length (renders outlineA')) \<and>
     (\<exists>merged. mergeOutlines [outlineA', outlineA] = [merged] \<and>
        length (renders merged) = length (renders outlineA) + length (renders outlineA'))"
    by blast
  then have two:
    "(\<exists>merged. mergeOutlines [outlineA, outlineA'] = [merged] \<and> length (renders merged) = 3) \<and>
     (\<exists>merged. mergeOutlines [outlineA', outlineA] = [merged] \<and> length (renders merged) = 3)"
    unfolding l .
  from k m r d two show ?thesis by blast
qed

subsection \<open>Geometry snapshot cache\<close>

lemma getRect_stale:
  "\<not> freshEntry env node s \<Longrightarrow>
   getRect env node s =
     (if suppressed env node then (None, s)
      else let rc = boundingClientRect env node in
        if \<not> (rect_top rc \<ge> - 30 \<and> rect_left rc \<ge> 0 \<and>
                 rect_bottom rc \<le> innerHeight env + 30 \<and>
                 rect_right rc \<le> innerWidth env + 30) \<or> rect_width rc = 0 \<or> rect_height rc = 0
        then (None, s)
        else (Some rc, s\<lparr>rectCache := (rectCache s)(node \<mapsto> \<lparr>entry_rect = rc, timestamp = now env\<rparr>)\<rparr>))"
  by (auto simp: getRect_def freshEntry_def suppressed_def Let_def split: option.splits)

lemma outside_not_visible:
  "outsideMargin env node \<Longrightarrow>
   \<not> (rect_top (boundingClientRect env node) \<ge> - 30 \<and> rect_left (boundingClientRect env node) \<ge> 0 \<and>
      rect_bottom (boundingClientRect env node) \<le> innerHeight env + 30 \<and>
      rect_right (boundingClientRect env node) \<le> innerWidth env + 30)"
  by (auto simp: outsideMargin_def rect_top_def rect_left_def rect_bottom_def rect_right_def)

text \<open>
  Claim C5, as the code has it. When the element has no cache entry inside its 128 ms
  window, \<^verbatim>\<open>getRect\<close> returns null and leaves the cache as it was whenever the element
  has suppressed rendering, zero width or height, or lies entirely outside the extended
  viewport. A null result never changes the cache, and the only change \<^verbatim>\<open>getRect\<close>
  ever makes is to store the rect it has just measured and returns.
\<close>

theorem getRect_null_without_fresh_entry:
  "(\<not> freshEntry env node s \<longrightarrow>
      suppressed env node \<or> zeroSize env node \<or> outsideMargin env node \<longrightarrow>
      getRect env node s = (None, s)) \<and>
   (fst (getRect env node s) = None \<longrightarrow> snd (getRect env node s) = s) \<and>
   (snd (getRect env node s) \<noteq> s \<longrightarrow>
      fst (getRect env node s) = Some (boundingClientRect env node) \<and>
      snd (getRect env node s) =
        s\<lparr>rectCache := (rectCache s)(node \<mapsto>
             \<lparr>entry_rect = boundingClientRect env node, timestamp = now env\<rparr>)\<rparr>)"
proof (intro conjI impI)
  assume stale: "\<not> freshEntry env node s"
    and bad: "suppressed env node \<or> zeroSize env node \<or> outsideMargin env node"
  from bad outside_not_visible [of env node] show "getRect env node s = (None, s)"
    unfolding getRect_stale [OF stale] by (auto simp: Let_def zeroSize_def)
next
  assume "fst (getRect env node s) = None"
  then show "snd (getRect env node s) = s"
    by (auto simp: getRect_def Let_def split: option.splits if_splits)
next
  assume "snd (getRect env node s) \<noteq> s"
  then show "fst (getRect env node s) = Some (boundingClientRect env node)"
    and "snd (getRect env node s) =
        s\<lparr>rectCache := (rectCache s)(node \<mapsto>
             \<lparr>entry_rect = boundingClientRect env node, timestamp = now env\<rparr>)\<rparr>"
    by (auto simp: getRect_def Let_def split: option.splits if_splits)
qed

theorem getRect_null_without_fresh_entry_witness:
  "\<not> freshEntry (pageHidden 1200) 5 (snd (getRect (page 1000) 5 (initial :: nat state))) \<and>
   suppressed (pageHidden 1200) 5 \<and>
   getRect (pageHidden 1200) 5 (snd (getRect (page 1000) 5 (initial :: nat state))) =
     (None, snd (getRect (page 1000) 5 (initial :: nat state))) \<and>
   snd (getRect (page 1000) 5 (initial :: nat state)) \<noteq> initial \<and>
   fst (getRect (page 1000) 5 (initial :: nat state)) = Some rectA"
proof -
  let ?s = "snd (getRect (page 1000) 5 (initial :: nat state))"
  have c: "rectCache ?s 5 = Some \<lparr>entry_rect = rectA, timestamp = 1000\<rparr>"
    by (simp add: getRect_def page_def initial_def shown_def rectA_def
        rect_top_def rect_left_def rect_bottom_def rect_right_def Let_def)
  have stale: "\<not> freshEntry (pageHidden 1200) 5 ?s"
    unfolding freshEntry_def c by (simp add: pageHidden_def page_def)
  have sup: "suppressed (pageHidden 1200) 5"
    by (simp add: suppressed_def pageHidden_def hiddenStyle_def)
  have changed: "?s \<noteq> initial"
  proof
    assume "?s = initial"
    then have "rectCache ?s 5 = rectCache (initial :: nat state) 5" by simp
    with c show False by (simp add: initial_def)
  qed
  from getRect_null_without_fresh_entry [of "pageHidden 1200" 5 ?s] stale sup
  have n: "getRect (pageHidden 1200) 5 ?s = (None, ?s)"
    by blast
  from getRect_null_without_fresh_entry [of "page 1000" 5 "initial :: nat state"] changed
  have "fst (getRect (page 1000) 5 (initial :: nat state)) =
      Some (boundingClientRect (page 1000) 5)"
    by blast
  then have w: "fst (getRect (page 1000) 5 (initial :: nat state)) = Some rectA"
    by (simp add: page_def)
  from stale sup n changed w show ?thesis by blast
qed

text \<open>
  Claim C5 as stated fails while a cache entry is fresh: the element below was measured
  at clock 1000 and is hidden (display none) at clock 1050, yet \<^verbatim>\<open>getRect\<close> answers with
  the cached rect.
\<close>

theorem cached_rect_shadows_hidden_element:
  "suppressed (pageHidden 1050) 5 \<and>
   fst (getRect (pageHidden 1050) 5 (snd (getRect (page 1000) 5 (initial :: nat state)))) = Some rectA"
  by (simp add: getRect_def suppressed_def pageHidden_def page_def initial_def hiddenStyle_def shown_def rectA_def
    rect_top_def rect_left_def rect_bottom_def rect_right_def Let_def)

text \<open>
  Claim C6. With a cache entry for the element, a call inside the TTL window (less than
  128 ms after the entry's timestamp) returns the cached rect and changes nothing,
  whatever the page now looks like; a call after the window computes the rect from the
  page as a call with an empty cache does, and stores it when there is one.
\<close>

theorem getRect_ttl:
  "(rectCache s node = Some c \<longrightarrow> now env - timestamp c < 128 \<longrightarrow>
      getRect env node s = (Some (entry_rect c), s)) \<and>
   (rectCache s node = Some c \<longrightarrow> \<not> now env - timestamp c < 128 \<longrightarrow>
      fst (getRect env node s) = fst (getRect env node (s\<lparr>rectCache := Map.empty\<rparr>)) \<and>
      snd (getRect env node s) =
        (case fst (getRect env node s) of
           None \<Rightarrow> s
         | Some rc \<Rightarrow> s\<lparr>rectCache := (rectCache s)(node \<mapsto> \<lparr>entry_rect = rc, timestamp = now env\<rparr>)\<rparr>))"
proof (intro conjI impI)
  assume "rectCache s node = Some c" and "now env - timestamp c < 128"
  then show "getRect env node s = (Some (entry_rect c), s)"
    by (simp add: getRect_def)
next
  assume entry: "rectCache s node = Some c" and expired: "\<not> now env - timestamp c < 128"
  then have stale: "\<not> freshEntry env node s"
    by (simp add: freshEntry_def)
  have empty: "\<not> freshEntry env node (s\<lparr>rectCache := Map.empty\<rparr>)"
    by (simp add: freshEntry_def)
  show "fst (getRect env node s) = fst (getRect env node (s\<lparr>rectCache := Map.empty\<rparr>))"
    unfolding getRect_stale [OF stale] getRect_stale [OF empty] by (simp add: Let_def)
  show "snd (getRect env node s) =
        (case fst (getRect env node s) of
           None \<Rightarrow> s
         | Some rc \<Rightarrow> s\<lparr>rectCache := (rectCache s)(node \<mapsto> \<lparr>entry_rect = rc, timestamp = now env\<rparr>)\<rparr>)"
    unfolding getRect_stale [OF stale] by (simp add: Let_def)
qed

theorem getRect_ttl_witness:
  "getRect (pageHidden 1050) 5 (snd (getRect (page 1000) 5 (initial :: nat state))) =
     (Some rectA, snd (getRect (page 1000) 5 (initial :: nat state))) \<and>
   fst (getRect (pageStacked 1128) 2 (snd (getRect (page 1000) 2 (initial :: nat state)))) = Some rectA \<and>
   fst (getRect (page 1000) 2 (initial :: nat state)) = Some rectB"
proof -
  let ?s = "snd (getRect (page 1000) 5 (initial :: nat state))"
  let ?s2 = "snd (getRect (page 1000) 2 (initial :: nat state))"
  have c: "rectCache ?s 5 = Some \<lparr>entry_rect = rectA, timestamp = 1000\<rparr>"
    by (simp add: getRect_def page_def initial_def shown_def rectA_def
        rect_top_def rect_left_def rect_bottom_def rect_right_def Let_def)
  have c2: "rectCache ?s2 2 = Some \<lparr>entry_rect = rectB, timestamp = 1000\<rparr>"
    and r2: "fst (getRect (page 1000) 2 (initial :: nat state)) = Some rectB"
    by (simp_all add: getRect_def page_def initial_def shown_def rectB_def
        rect_top_def rect_left_def rect_bottom_def rect_right_def Let_def)
  have live: "fst (getRect (pageStacked 1128) 2 (?s2\<lparr>rectCache := Map.empty\<rparr>)) = Some rectA"
    by (simp add: getRect_def pageStacked_def page_def shown_def rectA_def
        rect_top_def rect_left_def rect_bottom_def rect_right_def Let_def)
  show ?thesis
    using getRect_ttl [of ?s 5 "\<lparr>entry_rect = rectA, timestamp = 1000\<rparr>" "pageHidden 1050"]
      getRect_ttl [of ?s2 2 "\<lparr>entry_rect = rectB, timestamp = 1000\<rparr>" "pageStacked 1128"] c c2 r2 live
    by (simp add: pageHidden_def pageStacked_def page_def)
qed

subsection \<open>Color derivation\<close>

lemma jsRound_mono: "p \<le> q \<Longrightarrow> jsRound p \<le> jsRound q"
  by (simp add: jsRound_def floor_mono)

lemma jsRound_of_int: "jsRound (of_int i) = i"
  unfolding jsRound_def by linarith

lemma intensity_saturated: "maxRenders0 \<le> Suc c \<Longrightarrow> intensity (Suc c) maxRenders0 = 1"
proof (cases "maxRenders0 = 0")
  case True
  then show ?thesis by (simp add: intensity_def)
next
  case False
  assume "maxRenders0 \<le> Suc c"
  then have "(of_nat maxRenders0 :: rat) \<le> of_nat (Suc c)"
    by (simp only: of_nat_le_iff)
  with False have "(1 :: rat) \<le> of_nat (Suc c) / of_nat maxRenders0"
    by (simp add: le_divide_eq)
  with False show ?thesis by (simp add: intensity_def min_def)
qed

text \<open>
  Claim C7. As a function of the intensity ratio \<open>t\<close>, the color derivation returns exactly
  the cool anchor (115, 97, 230) at \<open>t = 0\<close> and exactly the hot anchor (185, 49, 115) at
  \<open>t = 1\<close>, which is the ratio whenever the update count (the count after the increment
  every paint performs) has reached \<^verbatim>\<open>maxRenders\<close>; and each rounded channel is monotonic
  in \<open>t\<close>: red never decreases, green and blue never increase.
\<close>

theorem outlineColor_anchors_monotonic:
  "outlineColor 0 = \<lparr>col_r = 115, col_g = 97, col_b = 230\<rparr> \<and>
   outlineColor 1 = \<lparr>col_r = 185, col_g = 49, col_b = 115\<rparr> \<and>
   (maxRenders0 \<le> Suc c \<longrightarrow>
      outlineColor (intensity (Suc c) maxRenders0) = \<lparr>col_r = 185, col_g = 49, col_b = 115\<rparr>) \<and>
   (t1 \<le> t2 \<longrightarrow>
      col_r (outlineColor t1) \<le> col_r (outlineColor t2) \<and>
      col_g (outlineColor t2) \<le> col_g (outlineColor t1) \<and>
      col_b (outlineColor t2) \<le> col_b (outlineColor t1))"
proof (intro conjI impI)
  show zero: "outlineColor 0 = \<lparr>col_r = 115, col_g = 97, col_b = 230\<rparr>"
    using jsRound_of_int [of 115] jsRound_of_int [of 97] jsRound_of_int [of 230]
    by (simp add: outlineColor_def START_COLOR_def END_COLOR_def)
  show one: "outlineColor 1 = \<lparr>col_r = 185, col_g = 49, col_b = 115\<rparr>"
    using jsRound_of_int [of 185] jsRound_of_int [of 49] jsRound_of_int [of 115]
    by (simp add: outlineColor_def START_COLOR_def END_COLOR_def)
  show "outlineColor (intensity (Suc c) maxRenders0) = \<lparr>col_r = 185, col_g = 49, col_b = 115\<rparr>"
    if "maxRenders0 \<le> Suc c"
    using that one by (simp only: intensity_saturated)
next
  assume le: "t1 \<le> t2"
  show "col_r (outlineColor t1) \<le> col_r (outlineColor t2)"
    using le by (simp add: outlineColor_def START_COLOR_def END_COLOR_def jsRound_mono)
  show "col_g (outlineColor t2) \<le> col_g (outlineColor t1)"
    using le by (simp add: outlineColor_def START_COLOR_def END_COLOR_def jsRound_mono)
  show "col_b (outlineColor t2) \<le> col_b (outlineColor t1)"
    using le by (simp add: outlineColor_def START_COLOR_def END_COLOR_def jsRound_mono)
qed

theorem outlineColor_anchors_monotonic_witness:
  "(100 :: nat) \<le> Suc 99 \<and>
   outlineColor (intensity (Suc 99) 100) = \<lparr>col_r = 185, col_g = 49, col_b = 115\<rparr> \<and>
   (0 :: rat) \<le> 1 / 2 \<and>
   col_r (outlineColor 0) \<le> col_r (outlineColor (1 / 2)) \<and>
   col_g (outlineColor (1 / 2)) \<le> col_g (outlineColor 0) \<and>
   col_b (outlineColor (1 / 2)) \<le> col_b (outlineColor 0) \<and>
   outlineColor (1 / 2) = \<lparr>col_r = 150, col_g = 73, col_b = 173\<rparr>"
proof -
  have h1: "(100 :: nat) \<le> Suc 99" by simp
  have h2: "(0 :: rat) \<le> 1 / 2" by simp
  have half: "outlineColor (1 / 2) = \<lparr>col_r = 150, col_g = 73, col_b = 173\<rparr>"
    using jsRound_of_int [of 150] jsRound_of_int [of 73]
    by (simp add: outlineColor_def START_COLOR_def END_COLOR_def jsRound_def)
  note all = outlineColor_anchors_monotonic [of 100 99 0 "1 / 2"]
  from all h1 have a: "outlineColor (intensity (Suc 99) 100) = \<lparr>col_r = 185, col_g = 49, col_b = 115\<rparr>"
    by blast
  from all h2 have b: "col_r (outlineColor 0) \<le> col_r (outlineColor (1 / 2)) \<and>
   col_g (outlineColor (1 / 2)) \<le> col_g (outlineColor 0) \<and>
   col_b (outlineColor (1 / 2)) \<le> col_b (outlineColor 0)"
    by blast
  from h1 h2 a b half show ?thesis by blast
qed

subsection \<open>What each operation leaves untouched\<close>

lemma getRect_keeps [simp]:
  "scheduledOutlines (snd (getRect env node s)) = scheduledOutlines s"
  "activeOutlines (snd (getRect env node s)) = activeOutlines s"
  "animationFrameId (snd (getRect env node s)) = animationFrameId s"
  "componentUpdateMap (snd (getRect env node s)) = componentUpdateMap s"
  "textureCache (snd (getRect env node s)) = textureCache s"
  "createdTextures (snd (getRect env node s)) = createdTextures s"
  "deletedTextures (snd (getRect env node s)) = deletedTextures s"
  "frameRequests (snd (getRect env node s)) = frameRequests s"
  "promises (snd (getRect env node s)) = promises s"
  "settled (snd (getRect env node s)) = settled s"
  "paintStarted (snd (getRect env node s)) = paintStarted s"
  "paintFinished (snd (getRect env node s)) = paintFinished s"
  "flushes (snd (getRect env node s)) = flushes s"
  by (simp_all add: getRect_def Let_def split: option.splits)

lemma createTextTexture_keeps [simp]:
  "scheduledOutlines (snd (createTextTexture txt s)) = scheduledOutlines s"
  "activeOutlines (snd (createTextTexture txt s)) = activeOutlines s"
  "animationFrameId (snd (createTextTexture txt s)) = animationFrameId s"
  "componentUpdateMap (snd (createTextTexture txt s)) = componentUpdateMap s"
  "rectCache (snd (createTextTexture txt s)) = rectCache s"
  "deletedTextures (snd (createTextTexture txt s)) = deletedTextures s"
  "frameRequests (snd (createTextTexture txt s)) = frameRequests s"
  "promises (snd (createTextTexture txt s)) = promises s"
  "settled (snd (createTextTexture txt s)) = settled s"
  "paintStarted (snd (createTextTexture txt s)) = paintStarted s"
  "paintFinished (snd (createTextTexture txt s)) = paintFinished s"
  "flushes (snd (createTextTexture txt s)) = flushes s"
  by (simp_all add: createTextTexture_def Let_def split: option.splits)

lemma assembleOne_keeps [simp]:
  "scheduledOutlines (snd (assembleOne ext env a s)) = scheduledOutlines s"
  "animationFrameId (snd (assembleOne ext env a s)) = animationFrameId s"
  "componentUpdateMap (snd (assembleOne ext env a s)) = componentUpdateMap s"
  "deletedTextures (snd (assembleOne ext env a s)) = deletedTextures s"
  "frameRequests (snd (assembleOne ext env a s)) = frameRequests s"
  "promises (snd (assembleOne ext env a s)) = promises s"
  "settled (snd (assembleOne ext env a s)) = settled s"
  "paintStarted (snd (assembleOne ext env a s)) = paintStarted s"
  "paintFinished (snd (assembleOne ext env a s)) = paintFinished s"
  "flushes (snd (assembleOne ext env a s)) = flushes s"
  by (simp_all add: assembleOne_def Let_def case_prod_beta)

lemma assembleOne_life [simp]:
  "lifeOf (fst (assembleOne ext env a s)) = (resolve a, Suc (frame a), totalFrames a)"
  by (simp add: assembleOne_def lifeOf_def Let_def case_prod_beta)

lemma assembleAll_keeps [simp]:
  "scheduledOutlines (snd (assembleAll ext env as s)) = scheduledOutlines s"
  "animationFrameId (snd (assembleAll ext env as s)) = animationFrameId s"
  "componentUpdateMap (snd (assembleAll ext env as s)) = componentUpdateMap s"
  "deletedTextures (snd (assembleAll ext env as s)) = deletedTextures s"
  "frameRequests (snd (assembleAll ext env as s)) = frameRequests s"
  "promises (snd (assembleAll ext env as s)) = promises s"
  "settled (snd (assembleAll ext env as s)) = settled s"
  "paintStarted (snd (assembleAll ext env as s)) = paintStarted s"
  "paintFinished (snd (assembleAll ext env as s)) = paintFinished s"
  "flushes (snd (assembleAll ext env as s)) = flushes s"
  by (induction as arbitrary: s; simp add: Let_def case_prod_beta)+

lemma assembleAll_life:
  "map lifeOf (fst (assembleAll ext env as s)) =
     map (\<lambda>a. (resolve a, Suc (frame a), totalFrames a)) as"
proof (induction as arbitrary: s)
  case Nil
  then show ?case by simp
next
  case (Cons a as)
  obtain a' s1 where one: "assembleOne ext env a s = (a', s1)" by force
  obtain as' s2 where rest: "assembleAll ext env as s1 = (as', s2)" by force
  from one have "lifeOf a' = (resolve a, Suc (frame a), totalFrames a)"
    using assembleOne_life [of ext env a s] by simp
  moreover from rest Cons.IH [of s1] have
    "map lifeOf as' = map (\<lambda>a. (resolve a, Suc (frame a), totalFrames a)) as" by simp
  ultimately show ?case by (simp add: one rest)
qed

lemma drawOutlines_keeps [simp]:
  "scheduledOutlines (drawOutlines ext env s) = scheduledOutlines s"
  "animationFrameId (drawOutlines ext env s) = animationFrameId s"
  "componentUpdateMap (drawOutlines ext env s) = componentUpdateMap s"
  "deletedTextures (drawOutlines ext env s) = deletedTextures s"
  "frameRequests (drawOutlines ext env s) = frameRequests s"
  "promises (drawOutlines ext env s) = promises s"
  "settled (drawOutlines ext env s) = settled s"
  "paintStarted (drawOutlines ext env s) = paintStarted s"
  "paintFinished (drawOutlines ext env s) = paintFinished s"
  "flushes (drawOutlines ext env s) = flushes s"
  by (simp_all add: drawOutlines_def assembleOutlinesDrawArraysInstanced_def case_prod_beta)

lemma released_textures:
  "concat (map (\<lambda>(txt, r). snd r) (map (\<lambda>(txt, textureInfo). (txt, releaseTexture textureInfo)) cache)) =
   map texture (filter (\<lambda>textureInfo. useCount textureInfo \<le> 1) (map snd cache))"
  by (induction cache) (auto simp: releaseTexture_def)

lemma fadeOut_idle:
  "activeOutlines s = [] \<Longrightarrow>
   fadeOutOutlineGL ext env s =
     s\<lparr>animationFrameId := None, componentUpdateMap := Map.empty, rectCache := Map.empty,
       textureCache := [],
       deletedTextures := deletedTextures s @
         map texture (filter (\<lambda>textureInfo. useCount textureInfo \<le> 1) (map snd (textureCache s)))\<rparr>"
  unfolding fadeOutOutlineGL_def Let_def released_textures by simp

lemma fadeOut_busy:
  "activeOutlines s \<noteq> [] \<Longrightarrow>
   fadeOutOutlineGL ext env s =
     (drawOutlines ext env s)
       \<lparr>activeOutlines :=
          filter (\<lambda>activeOutline. \<not> frame activeOutline > totalFrames activeOutline)
            (activeOutlines (drawOutlines ext env s)),
        frameRequests := frameRequests s + 1,
        animationFrameId := Some (frameRequests s + 1)\<rparr>"
  by (simp add: fadeOutOutlineGL_def Let_def)

lemma fadeOut_keeps [simp]:
  "scheduledOutlines (fadeOutOutlineGL ext env s) = scheduledOutlines s"
  "settled (fadeOutOutlineGL ext env s) = settled s"
  "paintStarted (fadeOutOutlineGL ext env s) = paintStarted s"
  "paintFinished (fadeOutOutlineGL ext env s) = paintFinished s"
  "flushes (fadeOutOutlineGL ext env s) = flushes s"
  by (cases "activeOutlines s = []"; simp add: fadeOut_idle fadeOut_busy)+

lemma paint_keeps [simp]:
  "fst (paintOutlineGL ext p s) = promises s"
  "promises (snd (paintOutlineGL ext p s)) = Suc (promises s)"
  "scheduledOutlines (snd (paintOutlineGL ext p s)) = scheduledOutlines s"
  "textureCache (snd (paintOutlineGL ext p s)) = textureCache s"
  "rectCache (snd (paintOutlineGL ext p s)) = rectCache s"
  "createdTextures (snd (paintOutlineGL ext p s)) = createdTextures s"
  "deletedTextures (snd (paintOutlineGL ext p s)) = deletedTextures s"
  "settled (snd (paintOutlineGL ext p s)) = settled s"
  "paintStarted (snd (paintOutlineGL ext p s)) = paintStarted s @ [p]"
  "paintFinished (snd (paintOutlineGL ext p s)) = paintFinished s"
  "flushes (snd (paintOutlineGL ext p s)) = flushes s"
  by (simp_all add: paintOutlineGL_def Let_def split: option.splits)

lemma paint_registry:
  "activeOutlines (snd (paintOutlineGL ext p s)) =
     (case find (\<lambda>a. getOutlineKey (outline a) = getOutlineKey p) (activeOutlines s) of
        None \<Rightarrow> activeOutlines s @ [created ext p s]
      | Some _ \<Rightarrow>
          updateFirst (\<lambda>a. getOutlineKey (outline a) = getOutlineKey p) (refreshed ext p s)
            (activeOutlines s))"
  by (cases "find (\<lambda>a. getOutlineKey (outline a) = getOutlineKey p) (activeOutlines s)";
      simp add: paintOutlineGL_def Let_def created_def refreshed_def [abs_def] paintedColor_def)

lemma recalcScheduled_keeps [simp]:
  "activeOutlines (snd (recalcScheduled env ps s)) = activeOutlines s"
  "scheduledOutlines (snd (recalcScheduled env ps s)) = scheduledOutlines s"
  "settled (snd (recalcScheduled env ps s)) = settled s"
  "paintStarted (snd (recalcScheduled env ps s)) = paintStarted s"
  "paintFinished (snd (recalcScheduled env ps s)) = paintFinished s"
  "flushes (snd (recalcScheduled env ps s)) = flushes s"
  "textureCache (snd (recalcScheduled env ps s)) = textureCache s"
  "createdTextures (snd (recalcScheduled env ps s)) = createdTextures s"
  "deletedTextures (snd (recalcScheduled env ps s)) = deletedTextures s"
  by (induction ps arbitrary: s; simp add: Let_def case_prod_beta split: option.splits)+

lemma recalcActive_keeps [simp]:
  "activeOutlines (snd (recalcActive env as s)) = activeOutlines s"
  "scheduledOutlines (snd (recalcActive env as s)) = scheduledOutlines s"
  "settled (snd (recalcActive env as s)) = settled s"
  "paintStarted (snd (recalcActive env as s)) = paintStarted s"
  "paintFinished (snd (recalcActive env as s)) = paintFinished s"
  "flushes (snd (recalcActive env as s)) = flushes s"
  "textureCache (snd (recalcActive env as s)) = textureCache s"
  "createdTextures (snd (recalcActive env as s)) = createdTextures s"
  "deletedTextures (snd (recalcActive env as s)) = deletedTextures s"
  by (induction as arbitrary: s; simp add: Let_def case_prod_beta split: option.splits)+

lemma recalcOutlines_keeps [simp]:
  "settled (recalcOutlines env s) = settled s"
  "paintStarted (recalcOutlines env s) = paintStarted s"
  "paintFinished (recalcOutlines env s) = paintFinished s"
  "flushes (recalcOutlines env s) = flushes s"
  "textureCache (recalcOutlines env s) = textureCache s"
  "createdTextures (recalcOutlines env s) = createdTextures s"
  "deletedTextures (recalcOutlines env s) = deletedTextures s"
  by (simp_all add: recalcOutlines_def Let_def case_prod_beta)

lemma paintAll_keeps [simp]:
  "scheduledOutlines (snd (paintAll ext prev ps s)) = scheduledOutlines s"
  "settled (snd (paintAll ext prev ps s)) = settled s"
  "paintFinished (snd (paintAll ext prev ps s)) = paintFinished s"
  "flushes (snd (paintAll ext prev ps s)) = flushes s"
  "textureCache (snd (paintAll ext prev ps s)) = textureCache s"
  "createdTextures (snd (paintAll ext prev ps s)) = createdTextures s"
  "deletedTextures (snd (paintAll ext prev ps s)) = deletedTextures s"
  by (induction ps arbitrary: s; simp add: Let_def case_prod_beta)+

lemma flushOutlinesGL_keeps [simp]:
  "settled (flushOutlinesGL ext prev s) = settled s"
  "paintFinished (flushOutlinesGL ext prev s) = paintFinished s"
  "textureCache (flushOutlinesGL ext prev s) = textureCache s"
  "createdTextures (flushOutlinesGL ext prev s) = createdTextures s"
  "deletedTextures (flushOutlinesGL ext prev s) = deletedTextures s"
  by (simp_all add: flushOutlinesGL_def Let_def case_prod_beta)

lemma resumeFlush_keeps [simp]:
  "settled (resumeFlush ext i s) = settled s"
  "paintFinished (resumeFlush ext i s) = paintFinished s"
  "textureCache (resumeFlush ext i s) = textureCache s"
  "createdTextures (resumeFlush ext i s) = createdTextures s"
  "deletedTextures (resumeFlush ext i s) = deletedTextures s"
  by (simp_all add: resumeFlush_def Let_def)

lemma step_keeps [simp]:
  "settled (step ext e s) = settled s"
  "paintFinished (step ext e s) = paintFinished s"
  by (cases e; simp)+

lemma run_keeps:
  "settled (run ext events s) = settled s"
  "paintFinished (run ext events s) = paintFinished s"
  by (induction events arbitrary: s; simp add: run_def)+


subsection \<open>Painting\<close>

lemma updateFirst_split:
  "find P xs = Some e \<Longrightarrow>
   \<exists>before after. xs = before @ e # after \<and> updateFirst P f xs = before @ f e # after"
proof (induction xs)
  case Nil
  then show ?case by simp
next
  case (Cons x xs)
  show ?case
  proof (cases "P x")
    case True
    with Cons.prems have "x = e" by simp
    with True have "x # xs = [] @ e # xs \<and> updateFirst P f (x # xs) = [] @ f e # xs"
      by simp
    then show ?thesis by blast
  next
    case False
    with Cons.prems have "find P xs = Some e" by simp
    from Cons.IH [OF this] obtain before after
      where "xs = before @ e # after" "updateFirst P f xs = before @ f e # after" by blast
    with False have
      "x # xs = (x # before) @ e # after \<and> updateFirst P f (x # xs) = (x # before) @ f e # after"
      by simp
    then show ?thesis by blast
  qed
qed

lemma find_holds: "find P xs = Some e \<Longrightarrow> P e"
  by (induction xs) (auto split: if_splits)

lemma refreshed_key [simp]:
  "getOutlineKey (outline (refreshed ext p s e)) = getOutlineKey p"
  by (simp add: refreshed_def getOutlineKey_def)

lemma updateFirst_keys:
  "map (\<lambda>a. getOutlineKey (outline a))
     (updateFirst (\<lambda>a. getOutlineKey (outline a) = getOutlineKey p) (refreshed ext p s) xs) =
   map (\<lambda>a. getOutlineKey (outline a)) xs"
  by (induction xs) auto

lemma find_None_keys:
  "find (\<lambda>a. getOutlineKey (outline a) = k) xs = None \<Longrightarrow>
   k \<notin> set (map (\<lambda>a. getOutlineKey (outline a)) xs)"
  by (induction xs) (auto split: if_splits)

lemma paint_keys:
  "activeKeys (snd (paintOutlineGL ext p s)) =
     (if getOutlineKey p \<in> set (activeKeys s) then activeKeys s
      else activeKeys s @ [getOutlineKey p])"
proof (cases "find (\<lambda>a. getOutlineKey (outline a) = getOutlineKey p) (activeOutlines s)")
  case None
  from find_None_keys [OF this] None show ?thesis
    by (simp add: activeKeys_def paint_registry created_def)
next
  case (Some e)
  from find_holds [OF this] have "getOutlineKey (outline e) = getOutlineKey p" .
  moreover from Some have "e \<in> set (activeOutlines s)"
    by (auto simp: find_Some_iff)
  ultimately have "getOutlineKey p \<in> set (activeKeys s)"
    by (force simp: activeKeys_def)
  with Some show ?thesis
    by (simp add: activeKeys_def paint_registry updateFirst_keys)
qed

text \<open>
  Claim C3, as the code has it. When the registry already holds an entry for the key of
  the painted outline, the paint appends the new renders to that entry's list, takes over
  the rect, resets \<^verbatim>\<open>frame\<close> to 0 and refreshes \<^verbatim>\<open>totalFrames\<close>, \<^verbatim>\<open>alpha\<close> and
  \<^verbatim>\<open>color\<close>; every other entry and the list of keys stay as they were. No paint, of a
  known or of a new key, makes two entries share a key when none did before.
\<close>

theorem paint_refreshes_existing_entry:
  "(find (\<lambda>a. getOutlineKey (outline a) = getOutlineKey p) (activeOutlines s) = Some existing \<longrightarrow>
      (\<exists>before after.
         activeOutlines s = before @ existing # after \<and>
         activeOutlines (snd (paintOutlineGL ext p s)) =
           before @
           existing
             \<lparr>outline := (outline existing)
                \<lparr>renders := renders (outline existing) @ renders p, rect := rect p\<rparr>,
              frame := 0,
              totalFrames := (if isOutlineUnstable ext p then 60 else 30),
              alpha := 1,
              color :=
                outlineColor
                  (intensity
                     (Suc (case componentUpdateMap s (getOutlineKey p) of None \<Rightarrow> 0 | Some c \<Rightarrow> c))
                     (case maxRenders ext of None \<Rightarrow> 100 | Some m \<Rightarrow> m))\<rparr> #
           after) \<and>
      activeKeys (snd (paintOutlineGL ext p s)) = activeKeys s) \<and>
   (distinct (activeKeys s) \<longrightarrow> distinct (activeKeys (snd (paintOutlineGL ext p s))))"
proof (intro conjI impI)
  assume f: "find (\<lambda>a. getOutlineKey (outline a) = getOutlineKey p) (activeOutlines s) = Some existing"
  from updateFirst_split [OF f, of "refreshed ext p s"] f
  show "\<exists>before after.
         activeOutlines s = before @ existing # after \<and>
         activeOutlines (snd (paintOutlineGL ext p s)) =
           before @
           existing
             \<lparr>outline := (outline existing)
                \<lparr>renders := renders (outline existing) @ renders p, rect := rect p\<rparr>,
              frame := 0,
              totalFrames := (if isOutlineUnstable ext p then 60 else 30),
              alpha := 1,
              color :=
                outlineColor
                  (intensity
                     (Suc (case componentUpdateMap s (getOutlineKey p) of None \<Rightarrow> 0 | Some c \<Rightarrow> c))
                     (case maxRenders ext of None \<Rightarrow> 100 | Some m \<Rightarrow> m))\<rparr> #
           after"
    by (simp add: paint_registry refreshed_def paintedColor_def)
  from find_holds [OF f] have "getOutlineKey (outline existing) = getOutlineKey p" .
  moreover from f have "existing \<in> set (activeOutlines s)"
    by (auto simp: find_Some_iff)
  ultimately have "getOutlineKey p \<in> set (activeKeys s)"
    by (force simp: activeKeys_def)
  then show "activeKeys (snd (paintOutlineGL ext p s)) = activeKeys s"
    by (simp add: paint_keys)
next
  assume "distinct (activeKeys s)"
  then show "distinct (activeKeys (snd (paintOutlineGL ext p s)))"
    by (simp add: paint_keys)
qed

lemma calm_painted:
  "map lifeOf (activeOutlines calmPainted) = [(0, 0, 30)]"
  "activeKeys calmPainted = [''10-10-100-50'']"
  "find (\<lambda>a. getOutlineKey (outline a) = getOutlineKey outlineA') (activeOutlines calmPainted) =
     Some (hd (activeOutlines calmPainted))"
  "map (\<lambda>a. renders (outline a)) (activeOutlines (snd (paintOutlineGL calmHost outlineA' calmPainted))) =
     [[7, 8, 9]]"
  "map lifeOf (activeOutlines (snd (paintOutlineGL calmHost outlineA' calmPainted))) = [(0, 0, 30)]"
  "fst (paintOutlineGL calmHost outlineA' calmPainted) = 1"
  by code_simp+

theorem paint_refreshes_existing_entry_witness:
  "find (\<lambda>a. getOutlineKey (outline a) = getOutlineKey outlineA') (activeOutlines calmPainted) =
     Some (hd (activeOutlines calmPainted)) \<and>
   activeKeys (snd (paintOutlineGL calmHost outlineA' calmPainted)) = activeKeys calmPainted \<and>
   distinct (activeKeys calmPainted) \<and>
   distinct (activeKeys (snd (paintOutlineGL calmHost outlineA' calmPainted))) \<and>
   map (\<lambda>a. renders (outline a)) (activeOutlines (snd (paintOutlineGL calmHost outlineA' calmPainted))) =
     [[7, 8, 9]] \<and>
   map lifeOf (activeOutlines (snd (paintOutlineGL calmHost outlineA' calmPainted))) = [(0, 0, 30)]"
proof -
  have d: "distinct (activeKeys calmPainted)"
    by (simp add: calm_painted)
  note all = paint_refreshes_existing_entry
    [of outlineA' calmPainted "hd (activeOutlines calmPainted)" calmHost]
  from all calm_painted(3) have
    k: "activeKeys (snd (paintOutlineGL calmHost outlineA' calmPainted)) = activeKeys calmPainted"
    by blast
  from all d have "distinct (activeKeys (snd (paintOutlineGL calmHost outlineA' calmPainted)))"
    by blast
  with k d calm_painted(3,4,5) show ?thesis by blast
qed

text \<open>
  Claim C3 as stated fails in its last clause: the tick writes the rect it has just
  measured into every entry, so two entries painted under different keys share a key once
  their elements come to lie on the same rect.
\<close>

theorem refreshed_rects_can_share_a_key:
  "activeKeys (run calmHost [Produce outlineA, Produce outlineB, Flush] initial) =
     [''10-10-100-50'', ''10-200-100-50''] \<and>
   activeKeys
     (run calmHost [Produce outlineA, Produce outlineB, Flush, AnimationFrame (pageStacked 0)] initial) =
     [''10-10-100-50'', ''10-10-100-50'']"
  by code_simp

subsection \<open>Textures and the idle tick\<close>















lemma once:
  "textureCache onceAcquired = [(Some ''App'', \<lparr>texture = 0, useCount = 1\<rparr>)]"
  "activeOutlines onceAcquired = []"
  "deletedTextures onceAcquired = []"
  "createdTextures onceAcquired = 1"
  by (simp_all add: onceAcquired_def createTextTexture_def initial_def Let_def)

lemma busy_painted:
  "activeOutlines busyPainted \<noteq> []"
  "deletedTextures busyPainted = []"
  "frameRequests busyPainted = 1"
  by (simp_all add: busyPainted_def paint_registry initial_def paintOutlineGL_def Let_def)


text \<open>
  Claim C9, as the code has it. The tick that finds the registry empty requests no further
  frame (the handle is reset and the request count stays), and clears the geometry cache
  and the update counters; it also empties the label texture cache, after deleting the
  textures whose use count is 1 or less; a frame event after it does nothing. A tick
  that finds the registry non-empty requests the next frame and leaves the counters
  alone.
\<close>

theorem idle_tick_clears_every_cache:
  "(activeOutlines s = [] \<longrightarrow>
      animationFrameId (fadeOutOutlineGL ext env s) = None \<and>
      frameRequests (fadeOutOutlineGL ext env s) = frameRequests s \<and>
      step ext (AnimationFrame env') (fadeOutOutlineGL ext env s) = fadeOutOutlineGL ext env s \<and>
      componentUpdateMap (fadeOutOutlineGL ext env s) = Map.empty \<and>
      rectCache (fadeOutOutlineGL ext env s) = Map.empty \<and>
      textureCache (fadeOutOutlineGL ext env s) = [] \<and>
      deletedTextures (fadeOutOutlineGL ext env s) =
        deletedTextures s @
          map texture (filter (\<lambda>textureInfo. useCount textureInfo \<le> 1) (map snd (textureCache s)))) \<and>
   (activeOutlines s \<noteq> [] \<longrightarrow>
      animationFrameId (fadeOutOutlineGL ext env s) = Some (frameRequests s + 1) \<and>
      frameRequests (fadeOutOutlineGL ext env s) = frameRequests s + 1 \<and>
      componentUpdateMap (fadeOutOutlineGL ext env s) = componentUpdateMap s)"
proof (intro conjI impI)
  assume idle: "activeOutlines s = []"
  note after = fadeOut_idle [OF idle, of ext env]
  show halted: "animationFrameId (fadeOutOutlineGL ext env s) = None"
    and "frameRequests (fadeOutOutlineGL ext env s) = frameRequests s"
    and "componentUpdateMap (fadeOutOutlineGL ext env s) = Map.empty"
    and "rectCache (fadeOutOutlineGL ext env s) = Map.empty"
    and "textureCache (fadeOutOutlineGL ext env s) = []"
    and "deletedTextures (fadeOutOutlineGL ext env s) =
        deletedTextures s @
          map texture (filter (\<lambda>textureInfo. useCount textureInfo \<le> 1) (map snd (textureCache s)))"
    by (simp_all add: after)
  from halted
  show "step ext (AnimationFrame env') (fadeOutOutlineGL ext env s) = fadeOutOutlineGL ext env s"
    by simp
next
  assume busy: "activeOutlines s \<noteq> []"
  note after = fadeOut_busy [OF busy, of ext env]
  show "animationFrameId (fadeOutOutlineGL ext env s) = Some (frameRequests s + 1)"
    and "frameRequests (fadeOutOutlineGL ext env s) = frameRequests s + 1"
    and "componentUpdateMap (fadeOutOutlineGL ext env s) = componentUpdateMap s"
    by (simp_all add: after)
qed

theorem idle_tick_clears_every_cache_witness:
  "activeOutlines onceAcquired = [] \<and>
   animationFrameId (fadeOutOutlineGL calmHost (page 0) onceAcquired) = None \<and>
   frameRequests (fadeOutOutlineGL calmHost (page 0) onceAcquired) = frameRequests onceAcquired \<and>
   textureCache (fadeOutOutlineGL calmHost (page 0) onceAcquired) = [] \<and>
   deletedTextures (fadeOutOutlineGL calmHost (page 0) onceAcquired) = [0] \<and>
   activeOutlines busyPainted \<noteq> [] \<and>
   animationFrameId (fadeOutOutlineGL busyHost (page 0) busyPainted) = Some 2"
proof -
  from idle_tick_clears_every_cache [of onceAcquired calmHost "page 0"]
  have a: "animationFrameId (fadeOutOutlineGL calmHost (page 0) onceAcquired) = None"
    and b: "frameRequests (fadeOutOutlineGL calmHost (page 0) onceAcquired) = frameRequests onceAcquired"
    and c: "textureCache (fadeOutOutlineGL calmHost (page 0) onceAcquired) = []"
    and d: "deletedTextures (fadeOutOutlineGL calmHost (page 0) onceAcquired) = [0]"
    by (simp_all add: once)
  from idle_tick_clears_every_cache [of busyPainted busyHost "page 0"]
  have e: "animationFrameId (fadeOutOutlineGL busyHost (page 0) busyPainted) = Some 2"
    by (simp add: busy_painted)
  from a b c d e once(2) busy_painted(1) show ?thesis by blast
qed

text \<open>
  Claim C9 as stated fails in its last clause: a labelled region was drawn and then
  dropped, and the idle tick that follows deletes its texture and empties the label
  texture cache.
\<close>

theorem label_texture_cache_is_cleared_on_idle:
  "activeOutlines (run busyHost labelledThenHidden initial) = [] \<and>
   animationFrameId (run busyHost labelledThenHidden initial) = Some 2 \<and>
   textureCache (run busyHost labelledThenHidden initial) =
     [(Some ''App'', \<lparr>texture = 0, useCount = 1\<rparr>)] \<and>
   textureCache (run busyHost (labelledThenHidden @ [AnimationFrame (page 516)]) initial) = [] \<and>
   deletedTextures (run busyHost (labelledThenHidden @ [AnimationFrame (page 516)]) initial) = [0]"
  by code_simp

subsection \<open>Ticks\<close>

lemma draw_ready:
  "programReady env \<Longrightarrow>
   activeOutlines (drawOutlines ext env s) = fst (assembleAll ext env (activeOutlines s) s)"
  by (simp add: drawOutlines_def assembleOutlinesDrawArraysInstanced_def case_prod_beta)

lemma draw_skipped: "\<not> programReady env \<Longrightarrow> drawOutlines ext env s = s"
  by (simp add: drawOutlines_def)

lemma tick_life:
  assumes "programReady env"
  shows "map lifeOf (activeOutlines (fadeOutOutlineGL ext env s)) =
     map (\<lambda>(p, f, T). (p, Suc f, T))
       (filter (\<lambda>(p, f, T). Suc f \<le> T) (map lifeOf (activeOutlines s)))"
proof (cases "activeOutlines s = []")
  case True
  then show ?thesis by (simp add: fadeOut_idle)
next
  case False
  let ?advanced = "fst (assembleAll ext env (activeOutlines s) s)"
  have keep: "map lifeOf (filter (\<lambda>a. \<not> frame a > totalFrames a) xs) =
      filter (\<lambda>(p, f, T). f \<le> T) (map lifeOf xs)" for xs :: "'a ActiveOutline list"
    by (induction xs) (simp_all add: lifeOf_def)
  have advance: "map lifeOf ?advanced =
      map (\<lambda>(p, f, T). (p, Suc f, T)) (map lifeOf (activeOutlines s))"
    by (simp add: assembleAll_life lifeOf_def)
  have shift: "filter (\<lambda>(p, f, T). f \<le> T) (map (\<lambda>(p, f, T). (p, Suc f, T)) ys) =
      map (\<lambda>(p, f, T). (p, Suc f, T)) (filter (\<lambda>(p, f, T). Suc f \<le> T) ys)"
    for ys :: "(nat \<times> nat \<times> nat) list"
    by (induction ys) auto
  have "map lifeOf (activeOutlines (fadeOutOutlineGL ext env s)) =
      map lifeOf (filter (\<lambda>a. \<not> frame a > totalFrames a) ?advanced)"
    using False assms by (simp add: fadeOut_busy draw_ready)
  also have "\<dots> = filter (\<lambda>(p, f, T). f \<le> T) (map lifeOf ?advanced)"
    by (rule keep)
  also have "\<dots> = filter (\<lambda>(p, f, T). f \<le> T)
      (map (\<lambda>(p, f, T). (p, Suc f, T)) (map lifeOf (activeOutlines s)))"
    by (simp only: advance)
  also have "\<dots> = map (\<lambda>(p, f, T). (p, Suc f, T))
       (filter (\<lambda>(p, f, T). Suc f \<le> T) (map lifeOf (activeOutlines s)))"
    by (rule shift)
  finally show ?thesis .
qed

lemma ticks_life:
  "envs \<noteq> [] \<Longrightarrow> \<forall>env \<in> set envs. programReady env \<Longrightarrow>
   map lifeOf (activeOutlines (ticks ext envs s)) =
     map (\<lambda>(p, f, T). (p, f + length envs, T))
       (filter (\<lambda>(p, f, T). f + length envs \<le> T) (map lifeOf (activeOutlines s)))"
proof (induction envs arbitrary: s rule: list_nonempty_induct)
  case (single env)
  then show ?case
    using tick_life [of env ext s] by (simp add: ticks_def)
next
  case (cons env envs)
  have step: "ticks ext (env # envs) s = ticks ext envs (fadeOutOutlineGL ext env s)"
    by (simp add: ticks_def)
  have alg: "map (\<lambda>(p, f, T). (p, f + n, T))
       (filter (\<lambda>(p, f, T). f + n \<le> T)
          (map (\<lambda>(p, f, T). (p, Suc f, T)) (filter (\<lambda>(p, f, T). Suc f \<le> T) ys))) =
     map (\<lambda>(p, f, T). (p, f + Suc n, T)) (filter (\<lambda>(p, f, T). f + Suc n \<le> T) ys)"
    for n and ys :: "(nat \<times> nat \<times> nat) list"
    by (induction ys) auto
  from cons.prems have ready: "programReady env" and rest: "\<forall>env \<in> set envs. programReady env"
    by simp_all
  have "map lifeOf (activeOutlines (ticks ext (env # envs) s)) =
      map (\<lambda>(p, f, T). (p, f + length envs, T))
       (filter (\<lambda>(p, f, T). f + length envs \<le> T)
         (map lifeOf (activeOutlines (fadeOutOutlineGL ext env s))))"
    unfolding step by (rule cons.IH [OF rest])
  also have "\<dots> = map (\<lambda>(p, f, T). (p, f + Suc (length envs), T))
      (filter (\<lambda>(p, f, T). f + Suc (length envs) \<le> T) (map lifeOf (activeOutlines s)))"
    unfolding tick_life [OF ready] by (rule alg)
  finally show ?case by simp
qed

lemma tick_skipped:
  "\<not> programReady env \<Longrightarrow>
   activeOutlines (fadeOutOutlineGL ext env s) =
     filter (\<lambda>a. \<not> frame a > totalFrames a) (activeOutlines s)"
  by (cases "activeOutlines s = []") (simp_all add: fadeOut_idle fadeOut_busy draw_skipped)

text \<open>
  Claim C2, as the code has it. An entry is created with \<^verbatim>\<open>frame\<close> 0. After \<open>n\<close>
  consecutive ticks whose outline pass runs, the registry holds exactly the entries with
  \<open>frame + n \<le> totalFrames\<close>, each with its frame advanced by \<open>n\<close>: a tick adds exactly 1
  and an entry leaves on the first tick that takes its frame above \<^verbatim>\<open>totalFrames\<close>. A
  tick whose outline pass is skipped advances no frame.
\<close>

theorem frame_lifecycle:
  "(find (\<lambda>a. getOutlineKey (outline a) = getOutlineKey p) (activeOutlines s) = None \<longrightarrow>
      (\<exists>new. activeOutlines (snd (paintOutlineGL ext p s)) = activeOutlines s @ [new] \<and>
         frame new = 0 \<and> outline new = p \<and>
         totalFrames new = (if isOutlineUnstable ext p then 60 else 30))) \<and>
   (envs \<noteq> [] \<and> (\<forall>env \<in> set envs. programReady env) \<longrightarrow>
      map lifeOf (activeOutlines (ticks ext envs s)) =
        map (\<lambda>(p, f, T). (p, f + length envs, T))
          (filter (\<lambda>(p, f, T). f + length envs \<le> T) (map lifeOf (activeOutlines s)))) \<and>
   (\<not> programReady env \<longrightarrow>
      activeOutlines (fadeOutOutlineGL ext env s) =
        filter (\<lambda>a. \<not> frame a > totalFrames a) (activeOutlines s))"
proof (intro conjI impI)
  assume "find (\<lambda>a. getOutlineKey (outline a) = getOutlineKey p) (activeOutlines s) = None"
  then have "activeOutlines (snd (paintOutlineGL ext p s)) = activeOutlines s @ [created ext p s]"
    by (simp add: paint_registry)
  moreover have "frame (created ext p s) = 0" and "outline (created ext p s) = p"
    and "totalFrames (created ext p s) = (if isOutlineUnstable ext p then 60 else 30)"
    by (simp_all add: created_def)
  ultimately show "\<exists>new. activeOutlines (snd (paintOutlineGL ext p s)) = activeOutlines s @ [new] \<and>
         frame new = 0 \<and> outline new = p \<and>
         totalFrames new = (if isOutlineUnstable ext p then 60 else 30)"
    by blast
next
  assume "envs \<noteq> [] \<and> (\<forall>env \<in> set envs. programReady env)"
  then show "map lifeOf (activeOutlines (ticks ext envs s)) =
        map (\<lambda>(p, f, T). (p, f + length envs, T))
          (filter (\<lambda>(p, f, T). f + length envs \<le> T) (map lifeOf (activeOutlines s)))"
    by (simp add: ticks_life)
next
  assume "\<not> programReady env"
  then show "activeOutlines (fadeOutOutlineGL ext env s) =
        filter (\<lambda>a. \<not> frame a > totalFrames a) (activeOutlines s)"
    by (rule tick_skipped)
qed

theorem frame_lifecycle_witness:
  "find (\<lambda>a. getOutlineKey (outline a) = getOutlineKey outlineA)
     (activeOutlines (initial :: nat state)) = None \<and>
   (\<exists>new. activeOutlines (snd (paintOutlineGL calmHost outlineA initial)) =
      activeOutlines initial @ [new] \<and> frame new = 0 \<and> outline new = outlineA \<and>
      totalFrames new = 30) \<and>
   map lifeOf (activeOutlines (ticks calmHost [page 0, page 16] calmPainted)) = [(0, 2, 30)] \<and>
   \<not> programReady (pageBroken 0) \<and>
   map lifeOf (activeOutlines (fadeOutOutlineGL calmHost (pageBroken 0) calmPainted)) = [(0, 0, 30)]"
proof -
  have none: "find (\<lambda>a. getOutlineKey (outline a) = getOutlineKey outlineA)
     (activeOutlines (initial :: nat state)) = None"
    by (simp add: initial_def)
  have ready: "[page 0, page 16] \<noteq> [] \<and> (\<forall>env \<in> set [page 0, page 16]. programReady env)"
    by (simp add: page_def)
  have broken: "\<not> programReady (pageBroken 0)"
    by (simp add: pageBroken_def)
  have calm: "\<not> isOutlineUnstable calmHost outlineA"
    by (simp add: calmHost_def)
  from frame_lifecycle [of outlineA initial calmHost "[]" "page 0"] none calm
  have a: "\<exists>new. activeOutlines (snd (paintOutlineGL calmHost outlineA initial)) =
      activeOutlines initial @ [new] \<and> frame new = 0 \<and> outline new = outlineA \<and>
      totalFrames new = 30"
    by simp
  from frame_lifecycle [of outlineA calmPainted calmHost "[page 0, page 16]" "pageBroken 0"] ready
  have "map lifeOf (activeOutlines (ticks calmHost [page 0, page 16] calmPainted)) =
        map (\<lambda>(p, f, T). (p, f + length [page 0, page 16], T))
          (filter (\<lambda>(p, f, T). f + length [page 0, page 16] \<le> T)
             (map lifeOf (activeOutlines calmPainted)))"
    by blast
  then have b: "map lifeOf (activeOutlines (ticks calmHost [page 0, page 16] calmPainted)) = [(0, 2, 30)]"
    by (simp add: calm_painted)
  from frame_lifecycle [of outlineA calmPainted calmHost "[page 0, page 16]" "pageBroken 0"] broken
  have "activeOutlines (fadeOutOutlineGL calmHost (pageBroken 0) calmPainted) =
        filter (\<lambda>a. \<not> frame a > totalFrames a) (activeOutlines calmPainted)"
    by blast
  moreover have "filter (\<lambda>a. \<not> frame a > totalFrames a) (activeOutlines calmPainted) =
      activeOutlines calmPainted"
    by code_simp
  ultimately have c: "map lifeOf (activeOutlines (fadeOutOutlineGL calmHost (pageBroken 0) calmPainted)) =
      [(0, 0, 30)]"
    by (simp add: calm_painted)
  from none a b broken c show ?thesis by blast
qed

text \<open>
  Claim C2 as stated fails twice. A tick whose outline program fails validation leaves
  \<^verbatim>\<open>frame\<close> at 0. And an entry that expires (here on tick 31 of a 30 frame window) is
  spliced out while no promise is settled and \<^verbatim>\<open>onPaintFinish\<close> has received nothing.
\<close>

theorem broken_program_tick_keeps_frame:
  "map frame (activeOutlines calmPainted) = [0] \<and>
   map frame (activeOutlines (fadeOutOutlineGL calmHost (pageBroken 0) calmPainted)) = [0] \<and>
   map frame (activeOutlines (ticks calmHost (replicate 30 (page 0)) calmPainted)) = [30] \<and>
   activeOutlines (ticks calmHost (replicate 31 (page 0)) calmPainted) = [] \<and>
   settled (ticks calmHost (replicate 31 (page 0)) calmPainted) = [] \<and>
   paintFinished (ticks calmHost (replicate 31 (page 0)) calmPainted) = []"
  by code_simp

subsection \<open>The event loop\<close>

lemma updateFirst_resolve:
  "map resolve (updateFirst P (refreshed ext p s) xs) = map resolve xs"
  by (induction xs) (simp_all add: refreshed_def)

text \<open>Only a call of the stored closure would settle a paint promise.\<close>

lemma callResolve_settles:
  "settled (callResolve activeOutline s) = settled s @ [resolve activeOutline]"
  "paintFinished (callResolve activeOutline s) = paintFinished s @ [outline activeOutline]"
  by (simp_all add: callResolve_def)

text \<open>
  Claim C10. No operation of the module settles a paint promise or calls
  \<^verbatim>\<open>onPaintFinish\<close>: after any sequence of events both lists are empty, and the promise
  a paint returns is unsettled after any events that follow it. The tick's clean-up, the
  recalculation and the paint leave both lists as they are, and a paint that refreshes an
  existing entry leaves the resolvers held by the registry unchanged, so the resolver of
  the promise it returns is stored nowhere.
\<close>

theorem resolve_is_never_called:
  "settled (run ext events initial) = [] \<and>
   paintFinished (run ext events initial) = [] \<and>
   (settled s = [] \<longrightarrow>
      fst (paintOutlineGL ext p s) \<notin> set (settled (run ext events (snd (paintOutlineGL ext p s))))) \<and>
   settled (fadeOutOutlineGL ext env s) = settled s \<and>
   paintFinished (fadeOutOutlineGL ext env s) = paintFinished s \<and>
   settled (recalcOutlines env s) = settled s \<and>
   paintFinished (recalcOutlines env s) = paintFinished s \<and>
   settled (snd (paintOutlineGL ext p s)) = settled s \<and>
   paintFinished (snd (paintOutlineGL ext p s)) = paintFinished s \<and>
   (find (\<lambda>a. getOutlineKey (outline a) = getOutlineKey p) (activeOutlines s) \<noteq> None \<longrightarrow>
      map resolve (activeOutlines (snd (paintOutlineGL ext p s))) = map resolve (activeOutlines s))"
proof (intro conjI impI)
  show "settled (run ext events initial) = []"
    and "paintFinished (run ext events initial) = []"
    by (simp_all add: run_keeps initial_def)
  show "fst (paintOutlineGL ext p s) \<notin> set (settled (run ext events (snd (paintOutlineGL ext p s))))"
    if "settled s = []"
    using that by (simp add: run_keeps)
  show "settled (fadeOutOutlineGL ext env s) = settled s"
    and "paintFinished (fadeOutOutlineGL ext env s) = paintFinished s"
    by (rule fadeOut_keeps)+
  show "settled (recalcOutlines env s) = settled s"
    and "paintFinished (recalcOutlines env s) = paintFinished s"
    by (rule recalcOutlines_keeps)+
  show "settled (snd (paintOutlineGL ext p s)) = settled s"
    and "paintFinished (snd (paintOutlineGL ext p s)) = paintFinished s"
    by (rule paint_keeps)+
next
  assume "find (\<lambda>a. getOutlineKey (outline a) = getOutlineKey p) (activeOutlines s) \<noteq> None"
  then obtain existing
    where "find (\<lambda>a. getOutlineKey (outline a) = getOutlineKey p) (activeOutlines s) = Some existing"
    by blast
  then show "map resolve (activeOutlines (snd (paintOutlineGL ext p s))) = map resolve (activeOutlines s)"
    by (simp add: paint_registry updateFirst_resolve)
qed

theorem resolve_is_never_called_witness:
  "settled (run calmHost
     [Produce outlineA, Flush, AnimationFrame (page 0), Recalc (pageHidden 500),
      Produce outlineB, Flush, Resume 0] initial) = [] \<and>
   find (\<lambda>a. getOutlineKey (outline a) = getOutlineKey outlineA') (activeOutlines calmPainted) \<noteq> None \<and>
   fst (paintOutlineGL calmHost outlineA' calmPainted) = 1 \<and>
   map resolve (activeOutlines (snd (paintOutlineGL calmHost outlineA' calmPainted))) =
     map resolve (activeOutlines calmPainted) \<and>
   settled calmPainted = [] \<and>
   fst (paintOutlineGL calmHost outlineA' calmPainted) \<notin>
     set (settled (run calmHost
       [Produce outlineA, Flush, AnimationFrame (page 0), Recalc (pageHidden 500),
        Produce outlineB, Flush, Resume 0] (snd (paintOutlineGL calmHost outlineA' calmPainted))))"
proof -
  have u: "settled calmPainted = []"
    by (simp add: calmPainted_def initial_def)
  have f: "find (\<lambda>a. getOutlineKey (outline a) = getOutlineKey outlineA') (activeOutlines calmPainted) \<noteq> None"
    by (simp add: calm_painted)
  note all = resolve_is_never_called
    [where ext = calmHost and s = calmPainted and p = outlineA' and env = "page 0" and
      events = "[Produce outlineA, Flush, AnimationFrame (page 0), Recalc (pageHidden 500),
        Produce outlineB, Flush, Resume 0]"]
  from all have a: "settled (run calmHost
     [Produce outlineA, Flush, AnimationFrame (page 0), Recalc (pageHidden 500),
      Produce outlineB, Flush, Resume 0] initial) = []"
    by blast
  from all f have "map resolve (activeOutlines (snd (paintOutlineGL calmHost outlineA' calmPainted))) =
     map resolve (activeOutlines calmPainted)"
    by blast
  moreover from all u have
    "fst (paintOutlineGL calmHost outlineA' calmPainted) \<notin>
     set (settled (run calmHost
       [Produce outlineA, Flush, AnimationFrame (page 0), Recalc (pageHidden 500),
        Produce outlineB, Flush, Resume 0] (snd (paintOutlineGL calmHost outlineA' calmPainted))))"
    by blast
  ultimately show ?thesis using a f u calm_painted(6) by blast
qed

lemma resume_stuck: "stuck s \<Longrightarrow> resumeFlush ext i s = s"
proof -
  assume st: "stuck s"
  have "\<not> list_all (\<lambda>(key, promise, outline0). promise \<in> set (settled s)) (flushes s ! i)"
    if "i < length (flushes s)"
  proof -
    from that st have "flushes s ! i \<noteq> []"
      by (metis nth_mem stuck_def)
    then obtain w ws where "flushes s ! i = w # ws"
      by (cases "flushes s ! i") auto
    with st show ?thesis by (simp add: stuck_def case_prod_beta)
  qed
  then show ?thesis by (auto simp: resumeFlush_def)
qed

lemma waiting_step:
  "stuck s \<Longrightarrow> waitsOnly e \<Longrightarrow>
   stuck (step ext e s) \<and> scheduledOutlines (step ext e s) = scheduledOutlines s \<and>
   flushes (step ext e s) = flushes s \<and> paintStarted (step ext e s) = paintStarted s"
  by (cases e) (simp_all add: resume_stuck, simp add: stuck_def)

lemma waiting_run:
  "stuck s \<Longrightarrow> list_all waitsOnly events \<Longrightarrow>
   scheduledOutlines (run ext events s) = scheduledOutlines s \<and>
   flushes (run ext events s) = flushes s \<and> paintStarted (run ext events s) = paintStarted s"
proof (induction events arbitrary: s)
  case Nil
  then show ?case by (simp add: run_def)
next
  case (Cons e events)
  from Cons.prems have "waitsOnly e" "list_all waitsOnly events" by simp_all
  from waiting_step [OF Cons.prems(1) this(1), of ext] Cons.IH [OF _ this(2), of "step ext e s"]
  show ?case by (simp add: run_def)
qed

lemma run_append: "run ext (es @ es') s = run ext es' (run ext es s)"
  by (simp add: run_def)

lemma first_flush:
  "scheduledOutlines (run ext [Produce a, Flush, Produce b] initial) = [b]"
  "flushes (run ext [Produce a, Flush, Produce b] initial) = [[(getOutlineKey a, 0, a)]]"
  "paintStarted (run ext [Produce a, Flush, Produce b] initial) = [a]"
  "settled (run ext [Produce a, Flush, Produce b] initial) = []"
  "promises (run ext [Produce a, Flush, Produce b] initial) = 1"
  by (simp_all add: run_def flushOutlinesGL_def mergeOutlines_def mergeStep_def Let_def
      case_prod_beta initial_def)

text \<open>
  Claim C1, on the code. The flush empties the queue and paints the first batch, and then
  waits for paint promises that are never settled. An outline queued after that stays in
  the queue through any number of frames and attempts to continue the flush: it is not
  painted until the producer calls the flush again, and that call leaves a second flush
  suspended beside the first.
\<close>

theorem second_batch_waits_for_another_flush:
  "list_all waitsOnly later \<Longrightarrow>
   scheduledOutlines (run ext ([Produce a, Flush, Produce b] @ later) initial) = [b] \<and>
   paintStarted (run ext ([Produce a, Flush, Produce b] @ later) initial) = [a] \<and>
   flushes (run ext ([Produce a, Flush, Produce b] @ later) initial) = [[(getOutlineKey a, 0, a)]] \<and>
   flushes (run ext [Produce a, Flush, Produce b, Flush] initial) =
     [[(getOutlineKey a, 0, a)], [(getOutlineKey b, 1, b)]]"
proof -
  assume later: "list_all waitsOnly later"
  let ?s = "run ext [Produce a, Flush, Produce b] initial"
  have "stuck ?s" by (simp add: stuck_def first_flush)
  from waiting_run [OF this later, of ext] have
    "scheduledOutlines (run ext ([Produce a, Flush, Produce b] @ later) initial) = [b] \<and>
     paintStarted (run ext ([Produce a, Flush, Produce b] @ later) initial) = [a] \<and>
     flushes (run ext ([Produce a, Flush, Produce b] @ later) initial) = [[(getOutlineKey a, 0, a)]]"
    by (simp only: run_append first_flush)
  moreover have "run ext [Produce a, Flush, Produce b, Flush] initial =
      flushOutlinesGL ext [] ?s"
    by (simp add: run_def)
  then have "flushes (run ext [Produce a, Flush, Produce b, Flush] initial) =
     [[(getOutlineKey a, 0, a)], [(getOutlineKey b, 1, b)]]"
    by (simp add: first_flush flushOutlinesGL_def mergeOutlines_def mergeStep_def Let_def
        case_prod_beta)
  ultimately show ?thesis by blast
qed

theorem second_batch_waits_for_another_flush_witness:
  "list_all waitsOnly [AnimationFrame (page 0), Resume 0, AnimationFrame (page 16) :: nat event] \<and>
   scheduledOutlines
     (run calmHost
        ([Produce outlineA, Flush, Produce outlineB] @
         [AnimationFrame (page 0), Resume 0, AnimationFrame (page 16)]) initial) = [outlineB] \<and>
   paintStarted
     (run calmHost
        ([Produce outlineA, Flush, Produce outlineB] @
         [AnimationFrame (page 0), Resume 0, AnimationFrame (page 16)]) initial) = [outlineA] \<and>
   activeKeys
     (run calmHost
        ([Produce outlineA, Flush, Produce outlineB] @
         [AnimationFrame (page 0), Resume 0, AnimationFrame (page 16)]) initial) = [''10-10-100-50'']"
proof -
  have w: "list_all waitsOnly [AnimationFrame (page 0), Resume 0, AnimationFrame (page 16) :: nat event]"
    by simp
  have k: "activeKeys
     (run calmHost
        ([Produce outlineA, Flush, Produce outlineB] @
         [AnimationFrame (page 0), Resume 0, AnimationFrame (page 16)]) initial) = [''10-10-100-50'']"
    by code_simp
  from second_batch_waits_for_another_flush [OF w, of calmHost outlineA outlineB] w k
  show ?thesis by blast
qed

end
